theory Spec2Isabelle
  imports Main
begin

section \<open>JavaScript values used by download.mjs\<close>

text \<open>
  The program is \<^verbatim>\<open>src/download.mjs\<close>. Its numbers are IEEE doubles; every number the
  modelled functions compute is an integer (an attempt counter, a byte count, a status
  code), so numbers are HOL integers. A number that may also be \<^verbatim>\<open>undefined\<close> or
  \<^verbatim>\<open>NaN\<close> (the result of \<^verbatim>\<open>parseInt\<close>) is a \<open>jsnum\<close>.
  Strings and byte buffers are \<open>string\<close>: a HOL character is one byte.
\<close>

datatype jsnum = JUndefined | JNaN | JNum int

text \<open>JavaScript truthiness of a number: \<^verbatim>\<open>undefined\<close>, \<^verbatim>\<open>NaN\<close> and \<^verbatim>\<open>0\<close> are falsy.\<close>

fun num_truthy :: "jsnum \<Rightarrow> bool" where
  "num_truthy JUndefined = False"
| "num_truthy JNaN = False"
| "num_truthy (JNum n) = (n \<noteq> 0)"

subsection \<open>Strings\<close>

fun startsWith :: "string \<Rightarrow> string \<Rightarrow> bool" where
  "startsWith s [] = True"
| "startsWith [] (p # ps) = False"
| "startsWith (c # cs) (p # ps) = (c = p \<and> startsWith cs ps)"

text \<open>\<^verbatim>\<open>s.includes(p)\<close>: \<open>p\<close> occurs in \<open>s\<close> as a contiguous substring.\<close>

fun str_includes :: "string \<Rightarrow> string \<Rightarrow> bool" where
  "str_includes [] p = (p = [])"
| "str_includes (c # cs) p = (startsWith (c # cs) p \<or> str_includes cs p)"

definition lower_char :: "char \<Rightarrow> char" where
  "lower_char c =
     (case map_of (zip ''ABCDEFGHIJKLMNOPQRSTUVWXYZ'' ''abcdefghijklmnopqrstuvwxyz'') c of
        Some d \<Rightarrow> d | None \<Rightarrow> c)"

definition upper_char :: "char \<Rightarrow> char" where
  "upper_char c =
     (case map_of (zip ''abcdefghijklmnopqrstuvwxyz'' ''ABCDEFGHIJKLMNOPQRSTUVWXYZ'') c of
        Some d \<Rightarrow> d | None \<Rightarrow> c)"

text \<open>\<^verbatim>\<open>toLowerCase\<close> and \<^verbatim>\<open>toUpperCase\<close>, on the ASCII letters.\<close>

definition toLowerCase :: "string \<Rightarrow> string" where
  "toLowerCase s = map lower_char s"

definition toUpperCase :: "string \<Rightarrow> string" where
  "toUpperCase s = map upper_char s"

definition is_digit :: "char \<Rightarrow> bool" where
  "is_digit c = (c \<in> set ''0123456789'')"

definition digit_val :: "char \<Rightarrow> nat" where
  "digit_val c = (case map_of (zip ''0123456789'' [0, 1, 2, 3, 4, 5, 6, 7, 8, 9]) c of
                    Some d \<Rightarrow> d | None \<Rightarrow> 0)"

text \<open>The value of a string of decimal digits, most significant first.\<close>

definition digits_val :: "string \<Rightarrow> nat" where
  "digits_val ds = foldl (\<lambda>acc c. 10 * acc + digit_val c) 0 ds"

text \<open>The decimal rendering of a number, as a template literal \<^verbatim>\<open>${n}\<close> prints it.\<close>

fun show_nat :: "nat \<Rightarrow> string" where
  "show_nat n =
     (if n < 10 then [''0123456789'' ! n]
      else show_nat (n div 10) @ [''0123456789'' ! (n mod 10)])"

definition show_int :: "int \<Rightarrow> string" where
  "show_int i = (if i < 0 then ''-'' @ show_nat (nat (- i)) else show_nat (nat i))"

text \<open>The white space that \<^verbatim>\<open>trim\<close> and \<^verbatim>\<open>parseInt\<close> skip, among the one-byte characters.\<close>

definition is_js_space :: "char \<Rightarrow> bool" where
  "is_js_space c =
     (c \<in> set [CHR 0x20, CHR 0x09, CHR 0x0A, CHR 0x0B, CHR 0x0C, CHR 0x0D, CHR 0xA0])"

definition js_trim :: "string \<Rightarrow> string" where
  "js_trim s = rev (dropWhile is_js_space (rev (dropWhile is_js_space s)))"

text \<open>
  \<^verbatim>\<open>parseInt(s, 10)\<close>: leading white space, an optional sign, then the longest run of
  decimal digits; \<^verbatim>\<open>NaN\<close> when there is no digit.
\<close>

definition parseInt10 :: "string \<Rightarrow> jsnum" where
  "parseInt10 s =
     (let t = dropWhile is_js_space s;
          neg = (t \<noteq> [] \<and> hd t = CHR ''-'');
          u = (if t \<noteq> [] \<and> (hd t = CHR ''-'' \<or> hd t = CHR ''+'') then tl t else t);
          ds = takeWhile is_digit u
      in if ds = [] then JNaN
         else JNum (if neg then - int (digits_val ds) else int (digits_val ds)))"

subsection \<open>Errors\<close>

text \<open>
  A thrown value: the fields of an \<^verbatim>\<open>Error\<close> that the program reads
  (\<^verbatim>\<open>err.name\<close>, \<^verbatim>\<open>err.message\<close>, \<^verbatim>\<open>err.cause.code\<close>; an absent cause is the
  empty code).
\<close>

record js_error =
  err_name :: string
  err_message :: string
  err_cause_code :: string

text \<open>\<^verbatim>\<open>new Error(msg)\<close>\<close>

definition Error :: "string \<Rightarrow> js_error" where
  "Error msg = \<lparr>err_name = ''Error'', err_message = msg, err_cause_code = ''''\<rparr>"

section \<open>Backoff and classification\<close>

text \<open>
  \<^verbatim>\<open>function toBackoffMs(attempt) {
    return Math.min(30_000, 700 * (2 ** Math.max(0, attempt - 1)));
}\<close>
\<close>

definition toBackoffMs :: "int \<Rightarrow> int" where
  "toBackoffMs attempt = min 30000 (700 * 2 ^ nat (max 0 (attempt - 1)))"

text \<open>
  \<^verbatim>\<open>function isRetriableStatus(status) {
    return status === 408 || status === 425 || status === 429 || (status >= 500 && status <= 599);
}\<close>
\<close>

definition isRetriableStatus :: "nat \<Rightarrow> bool" where
  "isRetriableStatus status =
     (status = 408 \<or> status = 425 \<or> status = 429 \<or> (status \<ge> 500 \<and> status \<le> 599))"

text \<open>
  \<^verbatim>\<open>function isTimeoutError(err) {
    const m = String(err?.message || '').toLowerCase();
    return err?.name === 'AbortError' || m.includes('timeout') || m.includes('timed out');
}\<close>
\<close>

definition isTimeoutError :: "js_error \<Rightarrow> bool" where
  "isTimeoutError err =
     (let m = toLowerCase (err_message err)
      in err_name err = ''AbortError'' \<or> str_includes m ''timeout'' \<or> str_includes m ''timed out'')"

text \<open>
  \<^verbatim>\<open>function isRetriableNetworkError(err) {
    if (isTimeoutError(err)) return true;
    const c = String(err?.cause?.code || '').toUpperCase();
    return ['ECONNRESET', 'ECONNREFUSED', 'ETIMEDOUT', 'EPIPE', 'ENOTFOUND', 'EHOSTUNREACH', 'EAI_AGAIN'].includes(c);
}\<close>
\<close>

definition isRetriableNetworkError :: "js_error \<Rightarrow> bool" where
  "isRetriableNetworkError err =
     (if isTimeoutError err then True
      else toUpperCase (err_cause_code err) \<in>
             set [''ECONNRESET'', ''ECONNREFUSED'', ''ETIMEDOUT'', ''EPIPE'', ''ENOTFOUND'',
                  ''EHOSTUNREACH'', ''EAI_AGAIN''])"

section \<open>HTTP requests and responses\<close>

text \<open>
  A header object (\<^verbatim>\<open>{ ...commonHeaders(referer), accept: '*/*' }\<close>) is an association
  list in insertion order; setting a name that is present overwrites its value in place.
  Header names are kept in lower case, as the \<^verbatim>\<open>Headers\<close> class of fetch does, and a
  response carries each header name once.
\<close>

type_synonym header_list = "(string \<times> string) list"

fun hset :: "string \<Rightarrow> string \<Rightarrow> header_list \<Rightarrow> header_list" where
  "hset k v [] = [(k, v)]"
| "hset k v ((k', v') # hs) = (if k' = k then (k, v) # hs else (k', v') # hset k v hs)"

definition hget :: "header_list \<Rightarrow> string \<Rightarrow> string option" where
  "hget hs k = map_of hs k"

text \<open>
  A response body is a stream. While it is read, two kinds of events reach the program:
  a chunk arrives from the network, or the file system completes the operation that the
  write stream of the download has in flight (the open of the file, or a write). A body
  is the list of these events in the order in which the event loop delivers them, and
  then either its end or an error (a connection reset, or the \<^verbatim>\<open>AbortError\<close> of an
  aborted request). How the completions fall between the chunks is decided by the speed of
  the network and of the disk, not by the program; a chunk that back-pressure holds up
  stands in the list where it is let through. The chunks of a body are its data events in
  order.
\<close>

datatype loop_event = Data string | FileDone

datatype stream_end = EndOfStream | StreamError js_error

record body_stream =
  events :: "loop_event list"
  ending :: stream_end

fun chunks_of :: "loop_event list \<Rightarrow> string list" where
  "chunks_of [] = []"
| "chunks_of (Data c # es) = c # chunks_of es"
| "chunks_of (FileDone # es) = chunks_of es"

definition chunks :: "body_stream \<Rightarrow> string list" where
  "chunks b = chunks_of (events b)"

record response =
  res_status :: nat
  res_headers :: header_list
  res_body :: "body_stream option"

text \<open>\<^verbatim>\<open>res.ok\<close>: the status is in the range 200-299.\<close>

definition res_ok :: "response \<Rightarrow> bool" where
  "res_ok res = (200 \<le> res_status res \<and> res_status res \<le> 299)"

record request =
  req_url :: string
  req_method :: string
  req_headers :: header_list

text \<open>
  A request of the login handshake, sent with \<^verbatim>\<open>https.request\<close>: the body is a
  \<^verbatim>\<open>URLSearchParams\<close> form, kept as its list of fields (empty when there is no body).
  Of the response, the program reads the status, the \<^verbatim>\<open>set-cookie\<close> lines and the body.
\<close>

record raw_request =
  rq_url :: string
  rq_method :: string
  rq_headers :: header_list
  rq_form :: "(string \<times> string) list"

record raw_response =
  rr_status :: nat
  rr_set_cookie :: "string list"
  rr_body :: string

text \<open>
  A parsed JSON value; \<open>JsUndefined\<close> is the value of a property that is absent. The
  numbers are integers: the program tests a JSON number for truthiness and prints it,
  and does no arithmetic on it.
\<close>

datatype json =
    JsUndefined
  | JsNull
  | JsBool bool
  | JsNumber int
  | JsString string
  | JsArray "json list"
  | JsObject "(string \<times> json) list"

section \<open>The environment and the program state\<close>

text \<open>
  What the program does not decide is a parameter: the remote server (the outcome of the
  \<open>n\<close>-th call of \<^verbatim>\<open>fetch\<close>, and of the \<open>n\<close>-th \<^verbatim>\<open>https.request\<close>, for the
  request sent: a response, or a thrown error such as a timeout), the built-in
  \<^verbatim>\<open>JSON.parse\<close> (\<open>None\<close> when it throws), and the configuration read once at start-up
  (\<^verbatim>\<open>COOKIE\<close>, \<^verbatim>\<open>RUNTIME_CONFIG.retryAttempts\<close>). Timers are not modelled: a timeout
  is an \<^verbatim>\<open>AbortError\<close> that the server parameter returns.
\<close>

record env =
  fetch_server :: "nat \<Rightarrow> request \<Rightarrow> js_error + response"
  raw_server :: "nat \<Rightarrow> raw_request \<Rightarrow> js_error + raw_response"
  JSON_parse :: "string \<Rightarrow> json option"
  COOKIE :: string
  retryAttempts :: int

text \<open>
  The mutable state: the files (path to content), the global \<^verbatim>\<open>ACTIVE_COOKIE\<close>
  (\<open>None\<close> is \<^verbatim>\<open>null\<close>), the persisted \<^verbatim>\<open>config.auth.sessionCookie\<close>, and a trace of
  the effects: the requests sent, the delays slept, and the expected total of each
  transfer that started.
\<close>

record state =
  files :: "string \<rightharpoonup> string"
  ACTIVE_COOKIE :: "string option"
  config_sessionCookie :: string
  fetched :: "request list"
  raw_sent :: "raw_request list"
  slept :: "int list"
  progress_totals :: "jsnum list"

definition sleep :: "int \<Rightarrow> state \<Rightarrow> state" where
  "sleep ms st = st\<lparr>slept := slept st @ [ms]\<rparr>"

section \<open>The retrying request client\<close>

text \<open>
  The global \<^verbatim>\<open>fetch\<close>: the request is recorded, and the server parameter gives the
  response or the error thrown.
\<close>

definition fetch :: "env \<Rightarrow> request \<Rightarrow> state \<Rightarrow> (js_error + response) \<times> state" where
  "fetch env req st =
     (fetch_server env (length (fetched st)) req, st\<lparr>fetched := fetched st @ [req]\<rparr>)"

text \<open>
  \<^verbatim>\<open>async function fetchWithTimeout(url, options = {}, timeoutMs = 60_000) {
    const controller = new AbortController();
    const t = setTimeout(() => controller.abort(), timeoutMs);
    try {
        const res = await fetch(url, { ...options, signal: controller.signal });
        return res;
    } finally { clearTimeout(t); }
}\<close>
  The abort after \<^verbatim>\<open>timeoutMs\<close> is one of the errors the server parameter may return.
\<close>

definition fetchWithTimeout :: "env \<Rightarrow> request \<Rightarrow> state \<Rightarrow> (js_error + response) \<times> state" where
  "fetchWithTimeout env req st = fetch env req st"

text \<open>
  \<^verbatim>\<open>async function fetchWithRetry(url, options = {}, { retries, timeoutMs, onRetry } = {}) {
    let lastErr = null;
    for (let attempt = 1; attempt <= retries; attempt++) {
        try {
            const res = await fetchWithTimeout(url, options, timeoutMs);
            if (isRetriableStatus(res.status) && attempt < retries) {
                await sleep(toBackoffMs(attempt));
                continue;
            }
            return res;
        } catch (err) {
            lastErr = err;
            if (attempt < retries && isRetriableNetworkError(err)) {
                await sleep(toBackoffMs(attempt));
                continue;
            }
            throw err;
        }
    }
    throw lastErr || new Error('Request failed after retries');
}\<close>
  The loop from a given attempt on (\<^verbatim>\<open>onRetry\<close> only logs).
\<close>

function fetchWithRetry_from ::
  "env \<Rightarrow> request \<Rightarrow> int \<Rightarrow> int \<Rightarrow> js_error option \<Rightarrow> state \<Rightarrow> (js_error + response) \<times> state" where
  "fetchWithRetry_from env req retries attempt lastErr st =
     (if attempt \<le> retries then
        (case fetchWithTimeout env req st of
           (Inr res, st1) \<Rightarrow>
             if isRetriableStatus (res_status res) \<and> attempt < retries
             then fetchWithRetry_from env req retries (attempt + 1) lastErr
                    (sleep (toBackoffMs attempt) st1)
             else (Inr res, st1)
         | (Inl err, st1) \<Rightarrow>
             if attempt < retries \<and> isRetriableNetworkError err
             then fetchWithRetry_from env req retries (attempt + 1) (Some err)
                    (sleep (toBackoffMs attempt) st1)
             else (Inl err, st1))
      else (Inl (case lastErr of Some e \<Rightarrow> e | None \<Rightarrow> Error ''Request failed after retries''), st))"
  by pat_completeness auto
termination
  by (relation "measure (\<lambda>(env, req, retries, attempt, lastErr, st). nat (retries + 1 - attempt))") auto

declare fetchWithRetry_from.simps [simp del]

definition fetchWithRetry :: "env \<Rightarrow> request \<Rightarrow> int \<Rightarrow> state \<Rightarrow> (js_error + response) \<times> state" where
  "fetchWithRetry env req retries st = fetchWithRetry_from env req retries 1 None st"



section \<open>Actionable error messages\<close>

definition ORIGIN :: string where
  "ORIGIN = ''https://maktabkhooneh.org''"

definition ACTIONABLE_URL_PLACEHOLDER :: string where
  "ACTIONABLE_URL_PLACEHOLDER = ''https://maktabkhooneh.org/course/<slug>/''"

text \<open>\<^verbatim>\<open>lines.join(sep)\<close>\<close>

fun str_join :: "string \<Rightarrow> string list \<Rightarrow> string" where
  "str_join sep [] = []"
| "str_join sep [x] = x"
| "str_join sep (x # y # ys) = x @ sep @ str_join sep (y # ys)"

text \<open>
  \<^verbatim>\<open>function buildActionableError(code, why, next) {
    const nextLines = Array.isArray(next) ? next.filter(Boolean) : [next].filter(Boolean);
    const lines = [`[${code}] ${why}`];
    if (nextLines.length > 0) {
        lines.push('Next step:');
        for (const n of nextLines) lines.push(`- ${n}`);
    }
    return lines.join('\n');
}\<close>
  A single \<^verbatim>\<open>next\<close> string is passed as a one-element list.
\<close>

definition buildActionableError :: "string \<Rightarrow> string \<Rightarrow> string list \<Rightarrow> string" where
  "buildActionableError code why next =
     (let nextLines = filter (\<lambda>n. n \<noteq> []) next;
          lines = [''['' @ code @ ''] '' @ why] @
                  (if length nextLines > 0
                   then ''Next step:'' # map (\<lambda>n. ''- '' @ n) nextLines else [])
      in str_join [CHR 0x0A] lines)"

text \<open>
  \<^verbatim>\<open>explainHttpFailure(status, context)\<close>: the message for a response that is not
  accepted. The branches are those of the source, in its order: 401, 403, 429,
  \<^verbatim>\<open>status >= 500\<close>, and the rest.
\<close>

definition explainHttpFailure :: "nat \<Rightarrow> string \<Rightarrow> string" where
  "explainHttpFailure status context =
     (if status = 401 then
        buildActionableError ''AUTH_401''
          (context @ '' failed with 401 Unauthorized. Your session/cookie is invalid or expired.'')
          [''Re-login with: node download.mjs '' @ [CHR 0x22] @ ACTIONABLE_URL_PLACEHOLDER @ [CHR 0x22]
             @ '' --force-login'',
           ''Or set auth.email/auth.password in config.json'']
      else if status = 403 then
        buildActionableError ''ACCESS_403''
          (context @ '' failed with 403 Forbidden. Your account does not have access to this course/content, or cookie was rejected.'')
          [''Make sure you are logged in with the account that purchased the course.'',
           ''Retry after re-login: node download.mjs '' @ [CHR 0x22] @ ACTIONABLE_URL_PLACEHOLDER
             @ [CHR 0x22] @ '' --force-login'']
      else if status = 429 then
        buildActionableError ''RATE_LIMIT_429''
          (context @ '' failed with 429 Too Many Requests.'')
          [''Wait a few minutes and retry.'',
           ''Optionally reduce pressure by selecting smaller scope: --chapter 1 --lesson 1-3'']
      else if status \<ge> 500 then
        buildActionableError (''SERVER_'' @ show_nat status)
          (context @ '' failed with '' @ show_nat status @ ''. Temporary server-side issue.'')
          [''Retry the same command after a short delay.'']
      else
        buildActionableError (''HTTP_'' @ show_nat status)
          (context @ '' failed with HTTP '' @ show_nat status @ ''.'')
          [''Run again with --verbose to inspect details.''])"

section \<open>Request headers\<close>

text \<open>
  \<^verbatim>\<open>function commonHeaders(referer) {
    const headers = { 'accept': '*/*', ..., 'user-agent': '...' };
    const ck = ACTIVE_COOKIE || COOKIE;
    if (ck && ck !== 'PUT_YOUR_COOKIE_HERE') headers['cookie'] = ck;
    if (referer) headers['referer'] = referer;
    return headers;
}\<close>
  An absent referer is the empty string.
\<close>

definition USER_AGENT :: string where
  "USER_AGENT = ''Mozilla/5.0 (Windows NT 10.0; Win64; x64) AppleWebKit/537.36 (KHTML, like Gecko) Chrome/125 Safari/537.36''"

definition commonHeaders :: "env \<Rightarrow> state \<Rightarrow> string \<Rightarrow> header_list" where
  "commonHeaders env st referer =
     (let headers = [(''accept'', ''*/*''),
                     (''accept-language'', ''en-US,en;q=0.9,fa;q=0.8''),
                     (''cache-control'', ''no-cache''),
                     (''pragma'', ''no-cache''),
                     (''x-requested-with'', ''XMLHttpRequest''),
                     (''user-agent'', USER_AGENT)];
          ck = (case ACTIVE_COOKIE st of
                  Some c \<Rightarrow> if c \<noteq> [] then c else COOKIE env
                | None \<Rightarrow> COOKIE env);
          headers1 = (if ck \<noteq> [] \<and> ck \<noteq> ''PUT_YOUR_COOKIE_HERE''
                      then hset ''cookie'' ck headers else headers)
      in if referer \<noteq> [] then hset ''referer'' referer headers1 else headers1)"

section \<open>Probing the remote resource\<close>

text \<open>
  \<^verbatim>\<open>cr.match(/\/(\d+)$/)\<close>: the digits of the match, when the string ends in a slash
  followed by one or more decimal digits.
\<close>

definition match_total :: "string \<Rightarrow> string option" where
  "match_total cr =
     (let ds = rev (takeWhile is_digit (rev cr));
          front = dropWhile is_digit (rev cr)
      in if ds \<noteq> [] \<and> front \<noteq> [] \<and> hd front = CHR ''/'' then Some ds else None)"

text \<open>\<^verbatim>\<open>len ? parseInt(len, 10) : undefined\<close>, for a header that may be absent.\<close>

definition header_number :: "string option \<Rightarrow> jsnum" where
  "header_number h =
     (case h of None \<Rightarrow> JUndefined | Some len \<Rightarrow> if len \<noteq> [] then parseInt10 len else JUndefined)"

text \<open>\<^verbatim>\<open>m ? parseInt(m[1], 10) : undefined\<close> with \<^verbatim>\<open>m = cr && cr.match(/\/(\d+)$/)\<close>.\<close>

definition range_total :: "string option \<Rightarrow> jsnum" where
  "range_total h =
     (case h of None \<Rightarrow> JUndefined
      | Some cr \<Rightarrow> (case match_total cr of Some ds \<Rightarrow> parseInt10 ds | None \<Rightarrow> JUndefined))"

record remote_info =
  ri_size :: jsnum
  acceptRanges :: bool

text \<open>The answer of the HEAD probe, when it gives one (\<^verbatim>\<open>res.ok\<close>).\<close>

definition head_info :: "js_error + response \<Rightarrow> remote_info option" where
  "head_info r =
     (case r of
        Inl err \<Rightarrow> None
      | Inr res \<Rightarrow>
          if res_ok res then
            Some \<lparr>ri_size = header_number (hget (res_headers res) ''content-length''),
                  acceptRanges =
                    str_includes
                      (toLowerCase (case hget (res_headers res) ''accept-ranges'' of
                                      Some v \<Rightarrow> v | None \<Rightarrow> []))
                      ''bytes''\<rparr>
          else None)"

text \<open>The answer of the fallback probe, a GET of the first byte.\<close>

definition range_info :: "js_error + response \<Rightarrow> remote_info" where
  "range_info r =
     (case r of
        Inl err \<Rightarrow> \<lparr>ri_size = JUndefined, acceptRanges = False\<rparr>
      | Inr res \<Rightarrow>
          if res_status res = 206
          then \<lparr>ri_size = range_total (hget (res_headers res) ''content-range''),
                acceptRanges = True\<rparr>
          else \<lparr>ri_size = JUndefined, acceptRanges = False\<rparr>)"

definition head_request :: "env \<Rightarrow> state \<Rightarrow> string \<Rightarrow> string \<Rightarrow> request" where
  "head_request env st u referer =
     \<lparr>req_url = u, req_method = ''HEAD'',
      req_headers = hset ''accept'' ''*/*'' (commonHeaders env st referer)\<rparr>"

definition first_byte_request :: "env \<Rightarrow> state \<Rightarrow> string \<Rightarrow> string \<Rightarrow> request" where
  "first_byte_request env st u referer =
     \<lparr>req_url = u, req_method = ''GET'',
      req_headers = hset ''accept'' ''*/*'' (hset ''range'' ''bytes=0-0'' (commonHeaders env st referer))\<rparr>"

text \<open>
  \<^verbatim>\<open>async function getRemoteSizeAndRanges(url, referer) {
    try {
        const res = await fetchWithRetry(url, { method: 'HEAD', headers: {...} }, {...});
        if (res.ok) {
            const len = res.headers.get('content-length');
            const size = len ? parseInt(len, 10) : undefined;
            const acceptRanges = (res.headers.get('accept-ranges') || '').toLowerCase().includes('bytes');
            return { size, acceptRanges };
        }
    } catch { }
    try {
        const res = await fetchWithRetry(url, { method: 'GET', headers: { ..., range: 'bytes=0-0', accept: '*/*' } }, {...});
        if (res.status === 206) {
            const cr = res.headers.get('content-range');
            const m = cr && cr.match(/\/(\d+)$/);
            const size = m ? parseInt(m[1], 10) : undefined;
            return { size, acceptRanges: true };
        }
    } catch { }
    return { size: undefined, acceptRanges: false };
}\<close>
\<close>

definition getRemoteSizeAndRanges :: "env \<Rightarrow> string \<Rightarrow> string \<Rightarrow> state \<Rightarrow> remote_info \<times> state" where
  "getRemoteSizeAndRanges env u referer st =
     (case fetchWithRetry env (head_request env st u referer) (retryAttempts env) st of
        (r1, st1) \<Rightarrow>
          (case head_info r1 of
             Some info \<Rightarrow> (info, st1)
           | None \<Rightarrow>
               (case fetchWithRetry env (first_byte_request env st1 u referer) (retryAttempts env) st1 of
                  (r2, st2) \<Rightarrow> (range_info r2, st2))))"

section \<open>Files\<close>

text \<open>
  The file system is a map from paths to contents. An operation on a path fails (the
  promise rejects, \<^verbatim>\<open>statSync\<close> throws) exactly when the file it reads is missing;
  directories and permissions are not modelled, so \<^verbatim>\<open>mkdir\<close> has no effect here.
\<close>

type_synonym file_system = "string \<rightharpoonup> string"

text \<open>\<^verbatim>\<open>try { const stat = fs.statSync(p); size = stat.size; } catch { }\<close> with \<^verbatim>\<open>size = 0\<close> before.\<close>

definition stat_size_or_0 :: "state \<Rightarrow> string \<Rightarrow> int" where
  "stat_size_or_0 st p = (case files st p of Some c \<Rightarrow> int (length c) | None \<Rightarrow> 0)"

definition fs_rename :: "string \<Rightarrow> string \<Rightarrow> file_system \<Rightarrow> file_system option" where
  "fs_rename src dst fs =
     (case fs src of None \<Rightarrow> None | Some c \<Rightarrow> Some ((fs(src := None))(dst \<mapsto> c)))"

definition fs_copyFile :: "string \<Rightarrow> string \<Rightarrow> file_system \<Rightarrow> file_system option" where
  "fs_copyFile src dst fs = (case fs src of None \<Rightarrow> None | Some c \<Rightarrow> Some (fs(dst \<mapsto> c)))"

text \<open>\<^verbatim>\<open>try { await fs.promises.unlink(p); } catch { }\<close>\<close>

definition unlink_quiet :: "string \<Rightarrow> file_system \<Rightarrow> file_system" where
  "unlink_quiet p fs = fs(p := None)"

text \<open>
  \<^verbatim>\<open>fs.createWriteStream(p, { flags })\<close>: \<^verbatim>\<open>'w'\<close> truncates or creates the file,
  \<^verbatim>\<open>'a'\<close> keeps what it holds. Writing a chunk appends it.
\<close>

definition createWriteStream :: "string \<Rightarrow> string \<Rightarrow> file_system \<Rightarrow> file_system" where
  "createWriteStream p flags fs =
     (if flags = ''w'' then fs(p \<mapsto> [])
      else fs(p \<mapsto> (case fs p of Some c \<Rightarrow> c | None \<Rightarrow> [])))"

definition write_chunk :: "string \<Rightarrow> string \<Rightarrow> file_system \<Rightarrow> file_system" where
  "write_chunk p data fs = fs(p \<mapsto> (case fs p of Some c \<Rightarrow> c | None \<Rightarrow> []) @ data)"

text \<open>
  The stream returned by \<^verbatim>\<open>fs.createWriteStream\<close> opens its file asynchronously and
  has one file operation in flight at a time, at first the open. A chunk written to the
  stream while an operation is in flight is buffered; a chunk written to the idle stream
  is handed to the file system at once. When the operation in flight completes, the
  buffer, if any, is handed to the file system in one write; otherwise the stream is idle.
  What has been handed to the file system reaches the file, also when the stream is
  destroyed meanwhile: \<^verbatim>\<open>destroy\<close> waits for the operation in flight before it closes the
  file. What is still buffered when the stream is destroyed is dropped. Ending the stream,
  as \<^verbatim>\<open>pipeline\<close> does when its source has ended, writes the buffer out. A stream does not
  pass on an empty chunk.

  The model keeps whether an operation is in flight and the buffer, next to the files;
  the file receives a chunk when the chunk is handed to the file system, and the open is
  \<open>createWriteStream\<close> above.
\<close>

record write_stream =
  ws_busy :: bool
  ws_buffer :: string

definition new_write_stream :: write_stream where
  "new_write_stream = \<lparr>ws_busy = True, ws_buffer = []\<rparr>"

definition ws_write :: "string \<Rightarrow> string \<Rightarrow> write_stream \<times> file_system \<Rightarrow> write_stream \<times> file_system" where
  "ws_write p data w =
     (case w of
        (ws, fs) \<Rightarrow>
          if data = [] then (ws, fs)
          else if ws_busy ws then (ws\<lparr>ws_buffer := ws_buffer ws @ data\<rparr>, fs)
          else (ws\<lparr>ws_busy := True\<rparr>, write_chunk p data fs))"

definition ws_file_done :: "string \<Rightarrow> write_stream \<times> file_system \<Rightarrow> write_stream \<times> file_system" where
  "ws_file_done p w =
     (case w of
        (ws, fs) \<Rightarrow>
          if ws_busy ws then
            (if ws_buffer ws = [] then (ws\<lparr>ws_busy := False\<rparr>, fs)
             else (ws\<lparr>ws_buffer := []\<rparr>, write_chunk p (ws_buffer ws) fs))
          else (ws, fs))"

definition ws_end :: "string \<Rightarrow> write_stream \<times> file_system \<Rightarrow> file_system" where
  "ws_end p w = (case w of (ws, fs) \<Rightarrow> if ws_buffer ws = [] then fs else write_chunk p (ws_buffer ws) fs)"

definition ws_destroy :: "write_stream \<times> file_system \<Rightarrow> file_system" where
  "ws_destroy w = snd w"

section \<open>The byte limit\<close>

text \<open>
  \<^verbatim>\<open>class ByteLimit extends Transform {
    constructor(limit, onLimit) { super(); this.limit = limit; this.seen = 0; this._hit = false; this._onLimit = onLimit; }
    _transform(chunk, enc, cb) {
        if (this.limit <= 0) { this.push(chunk); return cb(); }
        const remaining = this.limit - this.seen;
        if (remaining <= 0) { return cb(); }
        const buf = chunk.length > remaining ? chunk.subarray(0, remaining) : chunk;
        this.push(buf);
        this.seen += buf.length;
        if (!this._hit && this.seen >= this.limit) {
            this.end();
            this._hit = true;
            if (typeof this._onLimit === 'function') { try { this._onLimit(); } catch { } }
        }
        cb();
    }
}\<close>
  One call of \<^verbatim>\<open>_transform\<close> returns what it pushes (if anything), the new fields, and
  whether it called \<^verbatim>\<open>_onLimit\<close>.
\<close>

record ByteLimit =
  bl_limit :: int
  bl_seen :: int
  bl_hit :: bool

definition new_ByteLimit :: "int \<Rightarrow> ByteLimit" where
  "new_ByteLimit lim = \<lparr>bl_limit = lim, bl_seen = 0, bl_hit = False\<rparr>"

definition ByteLimit_transform :: "ByteLimit \<Rightarrow> string \<Rightarrow> string option \<times> ByteLimit \<times> bool" where
  "ByteLimit_transform bl chunk =
     (if bl_limit bl \<le> 0 then (Some chunk, bl, False)
      else
        let remaining = bl_limit bl - bl_seen bl in
        if remaining \<le> 0 then (None, bl, False)
        else
          let buf = (if int (length chunk) > remaining then take (nat remaining) chunk else chunk);
              seen' = bl_seen bl + int (length buf)
          in if \<not> bl_hit bl \<and> seen' \<ge> bl_limit bl
             then (Some buf, bl\<lparr>bl_seen := seen', bl_hit := True\<rparr>, True)
             else (Some buf, bl\<lparr>bl_seen := seen'\<rparr>, False))"

text \<open>Everything the transform emits when the chunks of a stream are fed to it in order.\<close>

fun ByteLimit_output :: "ByteLimit \<Rightarrow> string list \<Rightarrow> string" where
  "ByteLimit_output bl [] = []"
| "ByteLimit_output bl (c # cs) =
     (case ByteLimit_transform bl c of
        (out, bl', fired) \<Rightarrow> (case out of Some buf \<Rightarrow> buf | None \<Rightarrow> []) @ ByteLimit_output bl' cs)"

section \<open>The resumable transfer engine\<close>

text \<open>
  The pipeline \<^verbatim>\<open>pipeline(readable, counter, write)\<close> handles the events of the body in
  order: a chunk is counted and written to the write stream, a completion lets the write
  stream go on. The result is the write stream and the files when the body has delivered
  its last event.
\<close>

fun pipeline_plain ::
  "string \<Rightarrow> loop_event list \<Rightarrow> write_stream \<times> file_system \<Rightarrow> write_stream \<times> file_system" where
  "pipeline_plain p [] w = w"
| "pipeline_plain p (Data c # es) w = pipeline_plain p es (ws_write p c w)"
| "pipeline_plain p (FileDone # es) w = pipeline_plain p es (ws_file_done p w)"

text \<open>
  \<^verbatim>\<open>const limiter = new ByteLimit(sampleBytes, () => {
    byteLimitReached = true;
    try { readable.destroy(new Error('byte-limit')); } catch { }
    try { controller.abort(); } catch { }
});
await pipeline(readable, counter, limiter, write);\<close>
  With the byte limit in the pipeline, a chunk goes through \<^verbatim>\<open>_transform\<close>, and what
  that call pushes is written to the write stream. The call that reaches the limit then
  runs the callback, inside \<^verbatim>\<open>_transform\<close>: it sets \<^verbatim>\<open>byteLimitReached\<close> and destroys the
  source, whereupon \<^verbatim>\<open>pipeline\<close> destroys the other streams and rejects, before the event
  loop delivers another event: no later event of the body is handled. The result is
  \<^verbatim>\<open>byteLimitReached\<close>, and the write stream and the files at that moment.
\<close>

fun pipeline_limited ::
  "string \<Rightarrow> ByteLimit \<Rightarrow> loop_event list \<Rightarrow> write_stream \<times> file_system
     \<Rightarrow> bool \<times> write_stream \<times> file_system" where
  "pipeline_limited p bl [] w = (False, w)"
| "pipeline_limited p bl (FileDone # es) w = pipeline_limited p bl es (ws_file_done p w)"
| "pipeline_limited p bl (Data c # es) w =
     (case ByteLimit_transform bl c of
        (out, bl', fired) \<Rightarrow>
          let w' = (case out of Some buf \<Rightarrow> ws_write p buf w | None \<Rightarrow> w)
          in if fired then (True, w') else pipeline_limited p bl' es w')"

text \<open>JavaScript \<^verbatim>\<open>a + b\<close> and \<^verbatim>\<open>a >= b\<close> for a number \<open>a\<close> and a \<open>b\<close> that may be undefined or NaN.\<close>

fun num_add :: "int \<Rightarrow> jsnum \<Rightarrow> jsnum" where
  "num_add a (JNum b) = JNum (a + b)"
| "num_add a JUndefined = JNaN"
| "num_add a JNaN = JNaN"

fun num_ge :: "int \<Rightarrow> jsnum \<Rightarrow> bool" where
  "num_ge a (JNum b) = (a \<ge> b)"
| "num_ge a JUndefined = False"
| "num_ge a JNaN = False"

text \<open>
  The expected total of a transfer, from the response headers:
  \<^verbatim>\<open>const contentLengthHeader = res.headers.get('content-length');
const fullLength = contentLengthHeader ? parseInt(contentLengthHeader, 10) : undefined;
let expectedTotal;
const contentRange = res.headers.get('content-range');
const crMatch = contentRange && contentRange.match(/\/(\d+)$/);
if (sampleBytes && sampleBytes > 0) expectedTotal = sampleBytes;
else if (crMatch) expectedTotal = parseInt(crMatch[1], 10);
else if (fullLength && resumeOffset > 0) expectedTotal = resumeOffset + fullLength;
else expectedTotal = fullLength;\<close>
\<close>

definition expectedTotal :: "int \<Rightarrow> string option \<Rightarrow> string option \<Rightarrow> int \<Rightarrow> jsnum" where
  "expectedTotal sampleBytes contentRange contentLengthHeader resumeOffset =
     (let fullLength = header_number contentLengthHeader;
          crMatch = (case contentRange of None \<Rightarrow> None | Some cr \<Rightarrow> match_total cr)
      in if sampleBytes > 0 then JNum sampleBytes
         else case crMatch of
                Some ds \<Rightarrow> parseInt10 ds
              | None \<Rightarrow>
                  if num_truthy fullLength \<and> resumeOffset > 0 then num_add resumeOffset fullLength
                  else fullLength)"

text \<open>The loop variables of \<open>downloadToFile\<close> that outlive one attempt.\<close>

record dl_vars =
  existingTmpSize :: int
  existingFinalSize :: int
  remoteInfo :: "remote_info option"

datatype dl_return = RDownloaded | RExists | RUndefined

text \<open>
  The start of an attempt:
  \<^verbatim>\<open>let resumeOffset = 0;
if (sampleBytes > 0) {
    resumeOffset = 0; // do not resume sample downloads
} else {
    if (existingTmpSize > 0) {
        resumeOffset = existingTmpSize;
    } else if (existingFinalSize > 0) {
        if (!remoteInfo) remoteInfo = await getRemoteSizeAndRanges(url, referer);
        if (remoteInfo.acceptRanges) {
            try { await fs.promises.rename(filePath, tmpPath); existingTmpSize = existingFinalSize;
                  resumeOffset = existingFinalSize; existingFinalSize = 0; } catch { }
        } else {
            resumeOffset = 0;
        }
    }
}\<close>
\<close>

definition resume_decision ::
  "env \<Rightarrow> string \<Rightarrow> string \<Rightarrow> string \<Rightarrow> int \<Rightarrow> dl_vars \<Rightarrow> state \<Rightarrow> int \<times> dl_vars \<times> state" where
  "resume_decision env u filePath referer sampleBytes vars st =
     (if sampleBytes > 0 then (0, vars, st)
      else if existingTmpSize vars > 0 then (existingTmpSize vars, vars, st)
      else if existingFinalSize vars > 0 then
        (case (case remoteInfo vars of
                 Some info \<Rightarrow> (info, st)
               | None \<Rightarrow> getRemoteSizeAndRanges env u referer st) of
           (info, st1) \<Rightarrow>
             if acceptRanges info then
               (case fs_rename filePath (filePath @ ''.part'') (files st1) of
                  Some fs' \<Rightarrow>
                    (existingFinalSize vars,
                     vars\<lparr>remoteInfo := Some info, existingTmpSize := existingFinalSize vars,
                          existingFinalSize := 0\<rparr>,
                     st1\<lparr>files := fs'\<rparr>)
                | None \<Rightarrow> (0, vars\<lparr>remoteInfo := Some info\<rparr>, st1))
             else (0, vars\<lparr>remoteInfo := Some info\<rparr>, st1))
      else (0, vars, st))"

text \<open>
  \<^verbatim>\<open>const requestInit = { method: 'GET', headers: { ...commonHeaders(referer), accept: 'video/mp4,application/octet-stream,*/*' } };
if (sampleBytes && sampleBytes > 0) {
    requestInit.headers['range'] = `bytes=0-${Math.max(0, sampleBytes - 1)}`;
} else if (resumeOffset > 0) {
    requestInit.headers['range'] = `bytes=${resumeOffset}-`;
}\<close>
\<close>

definition download_request :: "env \<Rightarrow> state \<Rightarrow> string \<Rightarrow> string \<Rightarrow> int \<Rightarrow> int \<Rightarrow> request" where
  "download_request env st u referer sampleBytes resumeOffset =
     (let headers = hset ''accept'' ''video/mp4,application/octet-stream,*/*'' (commonHeaders env st referer)
      in \<lparr>req_url = u, req_method = ''GET'',
          req_headers =
            (if sampleBytes > 0
             then hset ''range'' (''bytes=0-'' @ show_int (max 0 (sampleBytes - 1))) headers
             else if resumeOffset > 0
             then hset ''range'' (''bytes='' @ show_int resumeOffset @ ''-'') headers
             else headers)\<rparr>)"

text \<open>
  \<^verbatim>\<open>if (!res.ok || !res.body) throw new Error(explainHttpFailure(res.status, 'Download'));\<close>
  The body of a response that passes this check; \<open>None\<close> when the check throws.
\<close>

definition accepted_body :: "response \<Rightarrow> body_stream option" where
  "accepted_body res = (if res_ok res then res_body res else None)"

text \<open>
  The end of a transfer that succeeded:
  \<^verbatim>\<open>try { await fs.promises.rename(tmpPath, filePath); }
catch (e) { try { await fs.promises.copyFile(writingTo, filePath); } catch { } }
try { await fs.promises.unlink(tmpPath); } catch { }
return 'downloaded';\<close>
\<close>

definition finalize_download :: "string \<Rightarrow> string \<Rightarrow> file_system \<Rightarrow> file_system" where
  "finalize_download tmpPath filePath fs =
     unlink_quiet tmpPath
       (case fs_rename tmpPath filePath fs of
          Some fs1 \<Rightarrow> fs1
        | None \<Rightarrow> (case fs_copyFile tmpPath filePath fs of Some fs2 \<Rightarrow> fs2 | None \<Rightarrow> fs))"

text \<open>
  The body of the response is piped to the temporary file, opened with
  \<^verbatim>\<open>flags: (sampleBytes > 0 || resumeOffset === 0) ? 'w' : 'a'\<close>. A pipeline whose source
  ends ends the write stream; a pipeline that fails destroys it, and is an error of the
  attempt, except when the byte limit was reached:
  \<^verbatim>\<open>catch (pipeErr) {
    if (sampleBytes && byteLimitReached) { ...rename, unlink...; return 'downloaded'; }
    throw pipeErr;
}\<close>
\<close>

definition transfer ::
  "string \<Rightarrow> int \<Rightarrow> int \<Rightarrow> response \<Rightarrow> body_stream \<Rightarrow> state \<Rightarrow> (js_error + dl_return) \<times> state" where
  "transfer filePath sampleBytes resumeOffset res b st =
     (let tmpPath = filePath @ ''.part'';
          flags = (if sampleBytes > 0 \<or> resumeOffset = 0 then ''w'' else ''a'');
          total = expectedTotal sampleBytes (hget (res_headers res) ''content-range'')
                    (hget (res_headers res) ''content-length'') resumeOffset;
          st1 = st\<lparr>files := createWriteStream tmpPath flags (files st),
                   progress_totals := progress_totals st @ [total]\<rparr>;
          write = (new_write_stream, files st1)
      in if sampleBytes > 0 then
           (case pipeline_limited tmpPath (new_ByteLimit sampleBytes) (events b) write of
              (byteLimitReached, w) \<Rightarrow>
                if byteLimitReached
                then (Inr RDownloaded,
                      st1\<lparr>files := finalize_download tmpPath filePath (ws_destroy w)\<rparr>)
                else (case ending b of
                        StreamError pipeErr \<Rightarrow> (Inl pipeErr, st1\<lparr>files := ws_destroy w\<rparr>)
                      | EndOfStream \<Rightarrow>
                          (Inr RDownloaded,
                           st1\<lparr>files := finalize_download tmpPath filePath (ws_end tmpPath w)\<rparr>)))
         else
           (let w = pipeline_plain tmpPath (events b) write
            in case ending b of
                 StreamError pipeErr \<Rightarrow> (Inl pipeErr, st1\<lparr>files := ws_destroy w\<rparr>)
               | EndOfStream \<Rightarrow>
                   (Inr RDownloaded,
                    st1\<lparr>files := finalize_download tmpPath filePath (ws_end tmpPath w)\<rparr>)))"

text \<open>
  The \<^verbatim>\<open>try\<close> block of one attempt: its result (a return value, or the error thrown in
  it), the loop variables and the state after it.
  \<^verbatim>\<open>const res = await fetch(url, { ...requestInit, signal: controller.signal });
if (!res.ok || !res.body) throw new Error(explainHttpFailure(res.status, 'Download'));
if (resumeOffset > 0 && res.status !== 206) {
    // Server didn't honor Range; restart from 0
    try { await fs.promises.unlink(tmpPath); } catch { }
    existingTmpSize = 0; resumeOffset = 0;
    clearTimeout(to);
    throw new Error('Server did not honor range; restarting from 0');
}\<close>
\<close>

definition download_attempt ::
  "env \<Rightarrow> string \<Rightarrow> string \<Rightarrow> string \<Rightarrow> int \<Rightarrow> dl_vars \<Rightarrow> state
     \<Rightarrow> (js_error + dl_return) \<times> dl_vars \<times> state" where
  "download_attempt env u filePath referer sampleBytes vars st =
     (case resume_decision env u filePath referer sampleBytes vars st of
        (resumeOffset, vars1, st1) \<Rightarrow>
          (case fetch env (download_request env st1 u referer sampleBytes resumeOffset) st1 of
             (Inl err, st2) \<Rightarrow> (Inl err, vars1, st2)
           | (Inr res, st2) \<Rightarrow>
               (case accepted_body res of
                  None \<Rightarrow>
                    (Inl (Error (explainHttpFailure (res_status res) ''Download'')), vars1, st2)
                | Some b \<Rightarrow>
                    if resumeOffset > 0 \<and> res_status res \<noteq> 206
                    then (Inl (Error ''Server did not honor range; restarting from 0''),
                          vars1\<lparr>existingTmpSize := 0\<rparr>,
                          st2\<lparr>files := unlink_quiet (filePath @ ''.part'') (files st2)\<rparr>)
                    else (case transfer filePath sampleBytes resumeOffset res b st2 of
                            (r, st3) \<Rightarrow> (r, vars1, st3)))))"

text \<open>\<^verbatim>\<open>/HTTP (408|425|429|5\d\d)/.test(s)\<close>\<close>

definition http_code_here :: "string \<Rightarrow> bool" where
  "http_code_here s =
     (startsWith s ''HTTP '' \<and>
      (let t = drop 5 s
       in startsWith t ''408'' \<or> startsWith t ''425'' \<or> startsWith t ''429'' \<or>
          (case t of
             c1 # c2 # c3 # rest \<Rightarrow> c1 = CHR ''5'' \<and> is_digit c2 \<and> is_digit c3
           | _ \<Rightarrow> False)))"

fun retry_regex :: "string \<Rightarrow> bool" where
  "retry_regex [] = False"
| "retry_regex (c # cs) = (http_code_here (c # cs) \<or> retry_regex cs)"

text \<open>
  The \<^verbatim>\<open>catch\<close> block of an attempt decides between a retry and the error:
  \<^verbatim>\<open>const retryable = isRetriableNetworkError(err) || /HTTP (408|425|429|5\d\d)/.test(String(err?.message || ''));
if (attempt < maxRetries && retryable) {
    await sleep(toBackoffMs(attempt));
    continue;
}
throw err;\<close>
\<close>

definition download_retryable :: "js_error \<Rightarrow> bool" where
  "download_retryable err = (isRetriableNetworkError err \<or> retry_regex (err_message err))"

text \<open>
  The loop \<^verbatim>\<open>for (let attempt = 1; attempt <= maxRetries; attempt++)\<close> from a given
  attempt on. Falling out of the loop, the function returns \<^verbatim>\<open>undefined\<close>.
\<close>

function downloadToFile_from ::
  "env \<Rightarrow> string \<Rightarrow> string \<Rightarrow> string \<Rightarrow> int \<Rightarrow> int \<Rightarrow> int \<Rightarrow> dl_vars \<Rightarrow> state
     \<Rightarrow> (js_error + dl_return) \<times> state" where
  "downloadToFile_from env u filePath referer maxRetries sampleBytes attempt vars st =
     (if attempt \<le> maxRetries then
        (case download_attempt env u filePath referer sampleBytes vars st of
           (Inr r, vars1, st1) \<Rightarrow> (Inr r, st1)
         | (Inl err, vars1, st1) \<Rightarrow>
             if attempt < maxRetries \<and> download_retryable err
             then downloadToFile_from env u filePath referer maxRetries sampleBytes (attempt + 1)
                    vars1 (sleep (toBackoffMs attempt) st1)
             else (Inl err, st1))
      else (Inr RUndefined, st))"
  by pat_completeness auto
termination
  by (relation "measure (\<lambda>(env, u, filePath, referer, maxRetries, sampleBytes, attempt, vars, st).
                  nat (maxRetries + 1 - attempt))") auto

declare downloadToFile_from.simps [simp del]

text \<open>
  \<^verbatim>\<open>async function downloadToFile(url, filePath, referer, maxRetries, sampleBytes = 0, label = '') {
    let existingFinalSize = 0;
    try { const stat = fs.statSync(filePath); existingFinalSize = stat.size;
          if (existingFinalSize > 0 && sampleBytes > 0) return 'exists'; } catch { }
    const tmpPath = filePath + '.part';
    let existingTmpSize = 0;
    try { const stat = fs.statSync(tmpPath); existingTmpSize = stat.size; } catch { }
    let remoteInfo;
    if (sampleBytes === 0 && existingFinalSize > 0) {
        remoteInfo = await getRemoteSizeAndRanges(url, referer);
        if (remoteInfo.size && existingFinalSize >= remoteInfo.size) {
            return 'exists';
        }
    }
    for (let attempt = 1; attempt <= maxRetries; attempt++) { ... }
}\<close>
  The label is only displayed.
\<close>

definition downloadToFile ::
  "env \<Rightarrow> string \<Rightarrow> string \<Rightarrow> string \<Rightarrow> int \<Rightarrow> int \<Rightarrow> state \<Rightarrow> (js_error + dl_return) \<times> state" where
  "downloadToFile env u filePath referer maxRetries sampleBytes st =
     (let final0 = stat_size_or_0 st filePath;
          tmp0 = stat_size_or_0 st (filePath @ ''.part'')
      in if final0 > 0 \<and> sampleBytes > 0 then (Inr RExists, st)
         else if sampleBytes = 0 \<and> final0 > 0 then
           (case getRemoteSizeAndRanges env u referer st of
              (info, st1) \<Rightarrow>
                if num_truthy (ri_size info) \<and> num_ge final0 (ri_size info) then (Inr RExists, st1)
                else downloadToFile_from env u filePath referer maxRetries sampleBytes 1
                       \<lparr>existingTmpSize = tmp0, existingFinalSize = final0, remoteInfo = Some info\<rparr>
                       st1)
         else downloadToFile_from env u filePath referer maxRetries sampleBytes 1
                \<lparr>existingTmpSize = tmp0, existingFinalSize = final0, remoteInfo = None\<rparr> st)"

section \<open>JSON values\<close>

text \<open>JavaScript truthiness of a value.\<close>

fun js_truthy :: "json \<Rightarrow> bool" where
  "js_truthy JsUndefined = False"
| "js_truthy JsNull = False"
| "js_truthy (JsBool b) = b"
| "js_truthy (JsNumber n) = (n \<noteq> 0)"
| "js_truthy (JsString s) = (s \<noteq> [])"
| "js_truthy (JsArray xs) = True"
| "js_truthy (JsObject kvs) = True"

text \<open>
  Reading a property: \<^verbatim>\<open>v?.k\<close>, and \<^verbatim>\<open>v.k\<close> for a \<open>v\<close> that is neither null nor
  undefined. The properties read by the program (\<^verbatim>\<open>auth\<close>, \<^verbatim>\<open>csrf\<close>, \<^verbatim>\<open>details\<close>,
  \<^verbatim>\<open>is_authenticated\<close>, \<^verbatim>\<open>status\<close>, \<^verbatim>\<open>message\<close>) exist on objects only.
\<close>

fun jget :: "json \<Rightarrow> string \<Rightarrow> json" where
  "jget (JsObject kvs) k = (case map_of kvs k of Some v \<Rightarrow> v | None \<Rightarrow> JsUndefined)"
| "jget v k = JsUndefined"

text \<open>\<^verbatim>\<open>String(v)\<close>, as a template literal prints a value.\<close>

fun show_json :: "json \<Rightarrow> string" where
  "show_json JsUndefined = ''undefined''"
| "show_json JsNull = ''null''"
| "show_json (JsBool b) = (if b then ''true'' else ''false'')"
| "show_json (JsNumber n) = show_int n"
| "show_json (JsString s) = s"
| "show_json (JsArray xs) =
     str_join '',''
       (map (\<lambda>x. case x of JsUndefined \<Rightarrow> [] | JsNull \<Rightarrow> [] | _ \<Rightarrow> show_json x) xs)"
| "show_json (JsObject kvs) = ''[object Object]''"

section \<open>The cookie store of the login handshake\<close>

text \<open>
  \<^verbatim>\<open>class SimpleCookieStore {
    constructor() { this.map = new Map(); }
    setCookieLine(line) {
        if (!line) return;
        const seg = line.split(';')[0];
        const eq = seg.indexOf('=');
        if (eq === -1) return;
        const k = seg.slice(0, eq).trim();
        const v = seg.slice(eq + 1).trim();
        if (k) this.map.set(k, v);
    }
    applySetCookie(arr) { (arr || []).forEach(l => this.setCookieLine(l)); }
    get(name) { return this.map.get(name); }
    headerString() { return Array.from(this.map.entries()).map(([k, v]) => `${k}=${v}`).join('; '); }
}\<close>
  A \<^verbatim>\<open>Map\<close> keeps its keys in insertion order and overwrites in place, as \<open>hset\<close> does.
\<close>

definition setCookieLine :: "string \<Rightarrow> header_list \<Rightarrow> header_list" where
  "setCookieLine line store =
     (if line = [] then store
      else
        let seg = takeWhile (\<lambda>c. c \<noteq> CHR '';'') line in
        if CHR ''='' \<notin> set seg then store
        else
          let k = js_trim (takeWhile (\<lambda>c. c \<noteq> CHR ''='') seg);
              v = js_trim (tl (dropWhile (\<lambda>c. c \<noteq> CHR ''='') seg))
          in if k \<noteq> [] then hset k v store else store)"

definition applySetCookie :: "string list \<Rightarrow> header_list \<Rightarrow> header_list" where
  "applySetCookie arr store = foldl (\<lambda>s l. setCookieLine l s) store arr"

definition headerString :: "header_list \<Rightarrow> string" where
  "headerString store = str_join ''; '' (map (\<lambda>(k, v). k @ ''='' @ v) store)"

section \<open>Raw requests\<close>

definition rawRequest :: "env \<Rightarrow> raw_request \<Rightarrow> state \<Rightarrow> (js_error + raw_response) \<times> state" where
  "rawRequest env req st =
     (raw_server env (length (raw_sent st)) req, st\<lparr>raw_sent := raw_sent st @ [req]\<rparr>)"

text \<open>
  \<^verbatim>\<open>async function rawRequestWithRetry(urlStr, reqOpts = {}, verbose = () => { }) {
    let lastErr = null;
    for (let attempt = 1; attempt <= RUNTIME_CONFIG.retryAttempts; attempt++) {
        try {
            const r = await rawRequest(urlStr, reqOpts);
            if (isRetriableStatus(r.status) && attempt < RUNTIME_CONFIG.retryAttempts) {
                await sleep(toBackoffMs(attempt));
                continue;
            }
            return r;
        } catch (err) {
            lastErr = err;
            if (attempt < RUNTIME_CONFIG.retryAttempts && isRetriableNetworkError(err)) {
                await sleep(toBackoffMs(attempt));
                continue;
            }
            throw err;
        }
    }
    throw lastErr || new Error('Raw request failed after retries');
}\<close>
\<close>

function rawRequestWithRetry_from ::
  "env \<Rightarrow> raw_request \<Rightarrow> int \<Rightarrow> js_error option \<Rightarrow> state \<Rightarrow> (js_error + raw_response) \<times> state" where
  "rawRequestWithRetry_from env req attempt lastErr st =
     (if attempt \<le> retryAttempts env then
        (case rawRequest env req st of
           (Inr r, st1) \<Rightarrow>
             if isRetriableStatus (rr_status r) \<and> attempt < retryAttempts env
             then rawRequestWithRetry_from env req (attempt + 1) lastErr
                    (sleep (toBackoffMs attempt) st1)
             else (Inr r, st1)
         | (Inl err, st1) \<Rightarrow>
             if attempt < retryAttempts env \<and> isRetriableNetworkError err
             then rawRequestWithRetry_from env req (attempt + 1) (Some err)
                    (sleep (toBackoffMs attempt) st1)
             else (Inl err, st1))
      else (Inl (case lastErr of Some e \<Rightarrow> e
                 | None \<Rightarrow> Error ''Raw request failed after retries''), st))"
  by pat_completeness auto
termination
  by (relation "measure (\<lambda>(env, req, attempt, lastErr, st). nat (retryAttempts env + 1 - attempt))")
     auto

declare rawRequestWithRetry_from.simps [simp del]

definition rawRequestWithRetry :: "env \<Rightarrow> raw_request \<Rightarrow> state \<Rightarrow> (js_error + raw_response) \<times> state" where
  "rawRequestWithRetry env req st = rawRequestWithRetry_from env req 1 None st"

section \<open>The login handshake\<close>

definition login_page_request :: raw_request where
  "login_page_request =
     \<lparr>rq_url = ORIGIN @ ''/accounts/login/'', rq_method = ''GET'',
      rq_headers = [(''User-Agent'', USER_AGENT),
                    (''Accept'', ''text/html,application/xhtml+xml,application/xml;q=0.9,*/*;q=0.8'')],
      rq_form = []\<rparr>"

definition core_data_raw_request :: raw_request where
  "core_data_raw_request =
     \<lparr>rq_url = ORIGIN @ ''/api/v1/general/core-data/?profile=1'', rq_method = ''GET'',
      rq_headers = [(''User-Agent'', USER_AGENT), (''Accept'', ''application/json'')],
      rq_form = []\<rparr>"

text \<open>\<^verbatim>\<open>store.get('csrftoken') || null\<close>\<close>

definition store_csrf :: "header_list \<Rightarrow> json" where
  "store_csrf store =
     (case hget store ''csrftoken'' of
        Some s \<Rightarrow> if s \<noteq> [] then JsString s else JsNull
      | None \<Rightarrow> JsNull)"

text \<open>
  The headers of the two POST requests:
  \<^verbatim>\<open>addCsrfHeaders({ ...baseHeaders(), 'Content-Type': '...', 'Cookie': cookieHeader() })\<close>.
  The token is written as \<^verbatim>\<open>String(csrf)\<close>.
\<close>

definition post_headers :: "json \<Rightarrow> header_list \<Rightarrow> header_list" where
  "post_headers csrf store =
     hset ''Referer'' (ORIGIN @ ''/accounts/login/'')
       (hset ''Origin'' ORIGIN
          (hset ''X-CSRFToken'' (show_json csrf)
             [(''User-Agent'', USER_AGENT),
              (''Accept'', ''application/json, text/javascript, */*; q=0.01''),
              (''X-Requested-With'', ''XMLHttpRequest''),
              (''Content-Type'', ''application/x-www-form-urlencoded; charset=UTF-8''),
              (''Cookie'', headerString store)]))"

definition check_request :: "json \<Rightarrow> string \<Rightarrow> header_list \<Rightarrow> raw_request" where
  "check_request csrf email store =
     \<lparr>rq_url = ORIGIN @ ''/api/v1/auth/check-active-user'', rq_method = ''POST'',
      rq_headers = post_headers csrf store,
      rq_form = [(''csrfmiddlewaretoken'', show_json csrf), (''tessera'', email),
                 (''g-recaptcha-response'', [])]\<rparr>"

definition login_request :: "json \<Rightarrow> string \<Rightarrow> string \<Rightarrow> header_list \<Rightarrow> raw_request" where
  "login_request csrf email password store =
     \<lparr>rq_url = ORIGIN @ ''/api/v1/auth/login-authentication'', rq_method = ''POST'',
      rq_headers = post_headers csrf store,
      rq_form = [(''csrfmiddlewaretoken'', show_json csrf), (''tessera'', email),
                 (''hidden_username'', email), (''password'', password),
                 (''g-recaptcha-response'', [])]\<rparr>"

text \<open>
  Step 0 of the handshake: the login page, and the core-data endpoint when the page set
  no \<^verbatim>\<open>csrftoken\<close> cookie. It ends with the token and the cookie store, or with the
  error thrown: an error of a request, \<^verbatim>\<open>LOGIN_CSRF\<close>, or the \<^verbatim>\<open>TypeError\<close> of
  \<^verbatim>\<open>csrf.slice(0, 8)\<close> for a token from the JSON body that is neither a string nor an
  array.
  \<^verbatim>\<open>let r = await rawRequestWithRetry(`${ORIGIN}/accounts/login/`, {...}, verbose);
store.applySetCookie(r.headers['set-cookie']);
let csrf = store.get('csrftoken') || null;
if (!csrf) {
    const r2 = await rawRequestWithRetry(`${ORIGIN}/api/v1/general/core-data/?profile=1`, {...}, verbose);
    store.applySetCookie(r2.headers['set-cookie']);
    try { const j2 = JSON.parse(r2.body); csrf = csrf || j2?.auth?.csrf || null; } catch { }
    if (!csrf) csrf = store.get('csrftoken') || null;
}
if (!csrf) { throw new Error(buildActionableError('LOGIN_CSRF', ...)); }
dbg('CSRF token:', csrf.slice(0, 8) + '...');\<close>
\<close>

definition login_csrf_error :: js_error where
  "login_csrf_error =
     Error (buildActionableError ''LOGIN_CSRF'' ''Cannot obtain CSRF token from server.''
       [''Your session/cookie may be stale or blocked.'',
        ''Retry: node download.mjs '' @ [CHR 0x22] @ ACTIONABLE_URL_PLACEHOLDER @ [CHR 0x22]
          @ '' --force-login --verbose''])"

definition csrf_checked :: "json \<Rightarrow> header_list \<Rightarrow> js_error + json \<times> header_list" where
  "csrf_checked csrf store =
     (if \<not> js_truthy csrf then Inl login_csrf_error
      else case csrf of
             JsString s \<Rightarrow> Inr (csrf, store)
           | JsArray xs \<Rightarrow> Inr (csrf, store)
           | _ \<Rightarrow> Inl \<lparr>err_name = ''TypeError'', err_message = ''csrf.slice is not a function'',
                       err_cause_code = []\<rparr>)"

definition login_csrf_step :: "env \<Rightarrow> state \<Rightarrow> (js_error + json \<times> header_list) \<times> state" where
  "login_csrf_step env st =
     (case rawRequestWithRetry env login_page_request st of
        (Inl err, st1) \<Rightarrow> (Inl err, st1)
      | (Inr r, st1) \<Rightarrow>
          (let store = applySetCookie (rr_set_cookie r) [];
               csrf = store_csrf store
           in if js_truthy csrf then (csrf_checked csrf store, st1)
              else
                (case rawRequestWithRetry env core_data_raw_request st1 of
                   (Inl err, st2) \<Rightarrow> (Inl err, st2)
                 | (Inr r2, st2) \<Rightarrow>
                     (let store2 = applySetCookie (rr_set_cookie r2) store;
                          csrf2 = (case JSON_parse env (rr_body r2) of
                                     None \<Rightarrow> csrf
                                   | Some j2 \<Rightarrow>
                                       if js_truthy (jget (jget j2 ''auth'') ''csrf'')
                                       then jget (jget j2 ''auth'') ''csrf'' else JsNull);
                          csrf3 = (if js_truthy csrf2 then csrf2 else store_csrf store2)
                      in (csrf_checked csrf3 store2, st2)))))"

text \<open>
  The answer of the check-active-user step, once its request returned \<open>r\<close>:
  \<^verbatim>\<open>if (r.status < 200 || r.status >= 300) throw new Error(explainHttpFailure(r.status, 'Login step check-active-user'));
let jCheck = null; try { jCheck = JSON.parse(r.body); } catch { }
if (!jCheck) { throw new Error(buildActionableError('LOGIN_CHECK_JSON', ...)); }
if (jCheck.status !== 'success') { throw new Error(buildActionableError('LOGIN_CHECK_FAILED', ...)); }
if (jCheck.message !== 'get-pass') { throw new Error(buildActionableError('LOGIN_FLOW', ...)); }\<close>
  The result is the error thrown, if any.
\<close>

definition check_answer :: "env \<Rightarrow> raw_response \<Rightarrow> js_error option" where
  "check_answer env r =
     (if rr_status r < 200 \<or> rr_status r \<ge> 300
      then Some (Error (explainHttpFailure (rr_status r) ''Login step check-active-user''))
      else
        let jCheck = (case JSON_parse env (rr_body r) of Some j \<Rightarrow> j | None \<Rightarrow> JsNull) in
        if \<not> js_truthy jCheck
        then Some (Error (buildActionableError ''LOGIN_CHECK_JSON''
               (''check-active-user returned invalid JSON (HTTP '' @ show_nat (rr_status r) @ '').'')
               [''Retry with --verbose. If it persists, retry later.'']))
        else if jget jCheck ''status'' \<noteq> JsString ''success''
        then Some (Error (buildActionableError ''LOGIN_CHECK_FAILED''
               (''check-active-user failed (status='' @ show_json (jget jCheck ''status'')
                  @ '', message='' @ show_json (jget jCheck ''message'') @ '').'')
               [''Verify auth.email in config.json, then retry with --force-login.'']))
        else if jget jCheck ''message'' \<noteq> JsString ''get-pass''
        then Some (Error (buildActionableError ''LOGIN_FLOW''
               (''Unsupported login flow (expected get-pass, got ''
                  @ show_json (jget jCheck ''message'') @ '').'')
               [''Run with --verbose and update script if site login flow changed.'']))
        else None)"

text \<open>The answer of the login-authentication step, in the same way.\<close>

definition login_answer :: "env \<Rightarrow> raw_response \<Rightarrow> js_error option" where
  "login_answer env r =
     (if rr_status r < 200 \<or> rr_status r \<ge> 300
      then Some (Error (explainHttpFailure (rr_status r) ''Login step login-authentication''))
      else
        let jLogin = (case JSON_parse env (rr_body r) of Some j \<Rightarrow> j | None \<Rightarrow> JsNull) in
        if \<not> js_truthy jLogin
        then Some (Error (buildActionableError ''LOGIN_AUTH_JSON''
               (''login-authentication returned invalid JSON (HTTP '' @ show_nat (rr_status r) @ '').'')
               [''Retry with --verbose. If it persists, try again later.'']))
        else if jget jLogin ''status'' \<noteq> JsString ''success''
        then Some (Error (buildActionableError ''LOGIN_AUTH_FAILED''
               (''login-authentication failed (message='' @ show_json (jget jLogin ''message'') @ '').'')
               [''Check auth.email/auth.password in config.json and retry with --force-login.'']))
        else None)"

text \<open>
  The end of the handshake:
  \<^verbatim>\<open>const sessionid = store.get('sessionid');
const csrftoken = store.get('csrftoken') || csrf;
if (!sessionid) { throw new Error(buildActionableError('LOGIN_COOKIE', ...)); }
ACTIVE_COOKIE = `csrftoken=${csrftoken}; sessionid=${sessionid}`;
return true;\<close>
\<close>

definition compose_cookie :: "json \<Rightarrow> header_list \<Rightarrow> js_error + string" where
  "compose_cookie csrf store =
     (let sessionid = (case hget store ''sessionid'' of Some s \<Rightarrow> s | None \<Rightarrow> []);
          csrftoken = (case hget store ''csrftoken'' of
                         Some s \<Rightarrow> if s \<noteq> [] then s else show_json csrf
                       | None \<Rightarrow> show_json csrf)
      in if sessionid = []
         then Inl (Error (buildActionableError ''LOGIN_COOKIE''
                ''Session cookie (sessionid) is missing after login.''
                [''Retry with --verbose. Server response/cookies may have changed.'']))
         else Inr (''csrftoken='' @ csrftoken @ ''; sessionid='' @ sessionid))"

text \<open>
  \<^verbatim>\<open>loginWithCredentialsInline(email, password, verbose)\<close>: the steps in order, each
  ending the handshake with its error when it fails. An absent email or password is the
  empty string.
\<close>

definition loginWithCredentialsInline ::
  "env \<Rightarrow> string \<Rightarrow> string \<Rightarrow> state \<Rightarrow> (js_error + bool) \<times> state" where
  "loginWithCredentialsInline env email password st =
     (if email = [] \<or> password = []
      then (Inl (Error (buildActionableError ''LOGIN_INPUT''
                   ''Email and password are required for login.''
                   [''Set auth.email and auth.password in config.json, then retry with --force-login.''])),
            st)
      else
        case login_csrf_step env st of
          (Inl err, st1) \<Rightarrow> (Inl err, st1)
        | (Inr (csrf, store), st1) \<Rightarrow>
            (case rawRequestWithRetry env (check_request csrf email store) st1 of
               (Inl err, st2) \<Rightarrow> (Inl err, st2)
             | (Inr r, st2) \<Rightarrow>
                 (let store2 = applySetCookie (rr_set_cookie r) store in
                  case check_answer env r of
                    Some err \<Rightarrow> (Inl err, st2)
                  | None \<Rightarrow>
                      (case rawRequestWithRetry env (login_request csrf email password store2) st2 of
                         (Inl err, st3) \<Rightarrow> (Inl err, st3)
                       | (Inr r3, st3) \<Rightarrow>
                           (let store3 = applySetCookie (rr_set_cookie r3) store2 in
                            case login_answer env r3 of
                              Some err \<Rightarrow> (Inl err, st3)
                            | None \<Rightarrow>
                                (case compose_cookie csrf store3 of
                                   Inl err \<Rightarrow> (Inl err, st3)
                                 | Inr ck \<Rightarrow> (Inr True, st3\<lparr>ACTIVE_COOKIE := Some ck\<rparr>)))))))"

section \<open>The session manager\<close>

text \<open>
  \<^verbatim>\<open>res.json()\<close>: the body is read to its end and parsed; a stream error and a parse
  error are thrown. A response without a body reads as the empty text.
\<close>

definition res_json :: "env \<Rightarrow> response \<Rightarrow> js_error + json" where
  "res_json env res =
     (let parse = (\<lambda>s. case JSON_parse env s of
                          Some j \<Rightarrow> Inr j
                        | None \<Rightarrow> Inl \<lparr>err_name = ''SyntaxError'',
                                        err_message = ''Unexpected token in JSON'',
                                        err_cause_code = []\<rparr>)
      in case res_body res of
           None \<Rightarrow> parse []
         | Some b \<Rightarrow>
             (case ending b of
                StreamError err \<Rightarrow> Inl err
              | EndOfStream \<Rightarrow> parse (concat (chunks b))))"

text \<open>
  \<^verbatim>\<open>async function fetchCoreData(referer) {
    const url = `${ORIGIN}/api/v1/general/core-data/?profile=1`;
    const res = await fetchWithRetry(url, { method: 'GET', headers: { ...commonHeaders(referer || ORIGIN), accept: 'application/json' } });
    if (!res.ok) throw new Error(explainHttpFailure(res.status, 'Auth check (core-data)'));
    return res.json();
}\<close>
\<close>

definition core_data_request :: "env \<Rightarrow> state \<Rightarrow> string \<Rightarrow> request" where
  "core_data_request env st referer =
     \<lparr>req_url = ORIGIN @ ''/api/v1/general/core-data/?profile=1'', req_method = ''GET'',
      req_headers = hset ''accept'' ''application/json''
                      (commonHeaders env st (if referer \<noteq> [] then referer else ORIGIN))\<rparr>"

definition fetchCoreData :: "env \<Rightarrow> string \<Rightarrow> state \<Rightarrow> (js_error + json) \<times> state" where
  "fetchCoreData env referer st =
     (case fetchWithRetry env (core_data_request env st referer) (retryAttempts env) st of
        (Inl err, st1) \<Rightarrow> (Inl err, st1)
      | (Inr res, st1) \<Rightarrow>
          if res_ok res then (res_json env res, st1)
          else (Inl (Error (explainHttpFailure (res_status res) ''Auth check (core-data)'')), st1))"

text \<open>\<^verbatim>\<open>ACTIVE_COOKIE\<close> as a condition: null and the empty string are falsy.\<close>

definition cookie_truthy :: "string option \<Rightarrow> bool" where
  "cookie_truthy ck = (case ck of Some c \<Rightarrow> c \<noteq> [] | None \<Rightarrow> False)"

text \<open>
  The helper of \<open>prepareSession\<close> that verifies the current \<^verbatim>\<open>ACTIVE_COOKIE\<close>:
  \<^verbatim>\<open>const verify = async () => {
    try {
        if (!ACTIVE_COOKIE) return null;
        const core = await fetchCoreData(courseUrl || ORIGIN);
        const ok = !!core?.auth?.details?.is_authenticated;
        if (ok) { return core; }
        return null;
    } catch (e) { return null; }
};\<close>
\<close>

definition verify :: "env \<Rightarrow> string \<Rightarrow> state \<Rightarrow> json option \<times> state" where
  "verify env courseUrl st =
     (if \<not> cookie_truthy (ACTIVE_COOKIE st) then (None, st)
      else
        case fetchCoreData env (if courseUrl \<noteq> [] then courseUrl else ORIGIN) st of
          (Inl err, st1) \<Rightarrow> (None, st1)
        | (Inr core, st1) \<Rightarrow>
            if js_truthy (jget (jget (jget core ''auth'') ''details'') ''is_authenticated'')
            then (Some core, st1) else (None, st1))"

datatype session_source = ConfigCookie | ConfigSession | FreshLogin | NoSession

text \<open>
  \<open>prepareSession\<close> is a sequence of three steps, each of which may return. Step 1, the
  cookie override of the configuration; its result is the verified profile, if any:
  \<^verbatim>\<open>if (COOKIE && COOKIE !== 'PUT_YOUR_COOKIE_HERE') {
    ACTIVE_COOKIE = COOKIE;
    const core = await verify();
    if (core) return { core, source: 'config-cookie' };
    if (!forceLogin) {
        logWarn('Cookie from config.auth.cookie/cookieFile is invalid; trying stored session/login fallback.');
    }
}\<close>
\<close>

definition override_configured :: "env \<Rightarrow> bool" where
  "override_configured env = (COOKIE env \<noteq> [] \<and> COOKIE env \<noteq> ''PUT_YOUR_COOKIE_HERE'')"

definition session_override :: "env \<Rightarrow> string \<Rightarrow> state \<Rightarrow> json option \<times> state" where
  "session_override env courseUrl st =
     (if override_configured env
      then verify env courseUrl (st\<lparr>ACTIVE_COOKIE := Some (COOKIE env)\<rparr>)
      else (None, st))"

text \<open>
  Step 2, the session stored by an earlier run:
  \<^verbatim>\<open>if (storedSessionCookie && !forceLogin) {
    ACTIVE_COOKIE = storedSessionCookie;
    const core = await verify();
    if (core) return { core, source: 'config-session' };
    ACTIVE_COOKIE = null;
}\<close>
\<close>

definition session_reuse :: "env \<Rightarrow> string \<Rightarrow> bool \<Rightarrow> string \<Rightarrow> state \<Rightarrow> json option \<times> state" where
  "session_reuse env courseUrl forceLogin storedSessionCookie st =
     (if storedSessionCookie \<noteq> [] \<and> \<not> forceLogin
      then
        (case verify env courseUrl (st\<lparr>ACTIVE_COOKIE := Some storedSessionCookie\<rparr>) of
           (Some core, st1) \<Rightarrow> (Some core, st1)
         | (None, st1) \<Rightarrow> (None, st1\<lparr>ACTIVE_COOKIE := None\<rparr>))
      else (None, st))"

text \<open>
  Step 3, the fresh login, and the end of the function:
  \<^verbatim>\<open>if (userEmail && userPassword && (!ACTIVE_COOKIE || forceLogin)) {
    try {
        await loginWithCredentialsInline(userEmail, userPassword, verbose);
        if (ACTIVE_COOKIE) {
            authCfg.sessionCookie = ACTIVE_COOKIE;
            authCfg.sessionUpdated = new Date().toISOString();
            await saveConfigFile(configPath, config);
        }
        const core = await verify();
        if (core) return { core, source: 'fresh-login' };
    } catch (e) { logWarn('Inline login failed: ' + e.message); }
}
if (!ACTIVE_COOKIE) { logWarn(...SESSION_INVALID...); }
return { core: null, source: 'none' };\<close>
  \<open>fresh_login\<close> is the \<^verbatim>\<open>try\<close> statement with what follows it. The time stamp and the
  warnings are not modelled.
\<close>

definition fresh_login ::
  "env \<Rightarrow> string \<Rightarrow> string \<Rightarrow> string \<Rightarrow> state \<Rightarrow> (json option \<times> session_source) \<times> state" where
  "fresh_login env userEmail userPassword courseUrl st =
     (case loginWithCredentialsInline env userEmail userPassword st of
        (Inl err, st1) \<Rightarrow> ((None, NoSession), st1)
      | (Inr ok, st1) \<Rightarrow>
          (let st2 = (case ACTIVE_COOKIE st1 of
                        Some c \<Rightarrow> if c \<noteq> [] then st1\<lparr>config_sessionCookie := c\<rparr> else st1
                      | None \<Rightarrow> st1)
           in case verify env courseUrl st2 of
                (Some core, st3) \<Rightarrow> ((Some core, FreshLogin), st3)
              | (None, st3) \<Rightarrow> ((None, NoSession), st3)))"

text \<open>\<^verbatim>\<open>(!ACTIVE_COOKIE || forceLogin)\<close>\<close>

definition login_wanted :: "state \<Rightarrow> bool \<Rightarrow> bool" where
  "login_wanted st forceLogin = (\<not> cookie_truthy (ACTIVE_COOKIE st) \<or> forceLogin)"

text \<open>
  \<^verbatim>\<open>async function prepareSession({ userEmail, userPassword, verbose, courseUrl, forceLogin, config, configPath }) {
    const authCfg = ...;
    const storedSessionCookie = String(authCfg.sessionCookie || '').trim();
    // 1. Explicit cookie override from config has highest priority
    // 2. Reuse session persisted in config.auth.sessionCookie
    // 3. Login with credentials and persist session back into config
    // 4. If we reach here, maybe we still have ACTIVE_COOKIE but verification failed or no cookie
}\<close>
  The result is the pair of \<^verbatim>\<open>core\<close> (\<open>None\<close> for null) and \<^verbatim>\<open>source\<close>. An absent email or
  password is the empty string.
\<close>

definition prepareSession ::
  "env \<Rightarrow> string \<Rightarrow> string \<Rightarrow> string \<Rightarrow> bool \<Rightarrow> state \<Rightarrow> (json option \<times> session_source) \<times> state" where
  "prepareSession env userEmail userPassword courseUrl forceLogin st =
     (let storedSessionCookie = js_trim (config_sessionCookie st)
      in case session_override env courseUrl st of
           (Some core, st1) \<Rightarrow> ((Some core, ConfigCookie), st1)
         | (None, st1) \<Rightarrow>
             (case session_reuse env courseUrl forceLogin storedSessionCookie st1 of
                (Some core, st2) \<Rightarrow> ((Some core, ConfigSession), st2)
              | (None, st2) \<Rightarrow>
                  if userEmail \<noteq> [] \<and> userPassword \<noteq> [] \<and> login_wanted st2 forceLogin
                  then fresh_login env userEmail userPassword courseUrl st2
                  else ((None, NoSession), st2)))"

section \<open>Notions used in the statements\<close>

text \<open>
  The expected total as the specification words it: the sample cap when sampling; else
  the total declared by the content-range header; else \<open>resumeOffset + contentLength\<close>
  when resuming with a known content length; else the plain content length; else
  unknown. This definition follows the specification, not the source; it is compared
  with \<open>expectedTotal\<close> below.
\<close>

definition expectedTotal_as_claimed :: "int \<Rightarrow> string option \<Rightarrow> string option \<Rightarrow> int \<Rightarrow> jsnum" where
  "expectedTotal_as_claimed sampleBytes contentRange contentLengthHeader resumeOffset =
     (if sampleBytes > 0 then JNum sampleBytes
      else case range_total contentRange of
             JNum t \<Rightarrow> JNum t
           | _ \<Rightarrow>
               (case header_number contentLengthHeader of
                  JNum n \<Rightarrow> if resumeOffset > 0 then JNum (resumeOffset + n) else JNum n
                | _ \<Rightarrow> JUndefined))"

text \<open>
  The two early returns of \<open>downloadToFile\<close>, before its loop: the final file has bytes
  and either the call is a sample download, or it is a full download
  (\<^verbatim>\<open>sampleBytes === 0\<close>) and the probe reports a size that is truthy and not larger
  than the local size.
\<close>

definition preflight_exists :: "env \<Rightarrow> string \<Rightarrow> string \<Rightarrow> string \<Rightarrow> int \<Rightarrow> state \<Rightarrow> bool" where
  "preflight_exists env u filePath referer sampleBytes st =
     (0 < stat_size_or_0 st filePath \<and>
      (0 < sampleBytes \<or>
       (sampleBytes = 0 \<and>
        num_truthy (ri_size (fst (getRemoteSizeAndRanges env u referer st))) \<and>
        num_ge (stat_size_or_0 st filePath) (ri_size (fst (getRemoteSizeAndRanges env u referer st))))))"

text \<open>
  A state \<open>st'\<close> differs from \<open>st\<close> at most by requests \<open>req\<close> sent with \<^verbatim>\<open>fetch\<close> and by
  delays slept.
\<close>

definition same_but_requests :: "request \<Rightarrow> state \<Rightarrow> state \<Rightarrow> bool" where
  "same_but_requests req st st' =
     (files st' = files st \<and> ACTIVE_COOKIE st' = ACTIVE_COOKIE st \<and>
      config_sessionCookie st' = config_sessionCookie st \<and> raw_sent st' = raw_sent st \<and>
      progress_totals st' = progress_totals st \<and>
      (\<exists>k. fetched st' = fetched st @ replicate k req))"

text \<open>
  A state \<open>st'\<close> differs from \<open>st\<close> at most by requests \<open>req\<close> sent with \<^verbatim>\<open>https.request\<close> and
  by delays slept.
\<close>

definition same_but_raw_requests :: "raw_request \<Rightarrow> state \<Rightarrow> state \<Rightarrow> bool" where
  "same_but_raw_requests req st st' =
     (files st' = files st \<and> ACTIVE_COOKIE st' = ACTIVE_COOKIE st \<and>
      config_sessionCookie st' = config_sessionCookie st \<and> fetched st' = fetched st \<and>
      progress_totals st' = progress_totals st \<and>
      (\<exists>k. raw_sent st' = raw_sent st @ replicate k req))"

text \<open>
  A body that arrives at the pace of the disk: whenever a chunk arrives, the write stream
  has completed what it had in flight.
\<close>

fun paced :: "string list \<Rightarrow> loop_event list" where
  "paced [] = []"
| "paced (c # cs) = FileDone # Data c # paced cs"

text \<open>The requests of a trace that went to the password step of the handshake.\<close>

definition password_requests :: "raw_request list \<Rightarrow> raw_request list" where
  "password_requests rs = filter (\<lambda>q. rq_url q = ORIGIN @ ''/api/v1/auth/login-authentication'') rs"

section \<open>Example environments\<close>



definition empty_state :: state where
  "empty_state = \<lparr>files = Map.empty, ACTIVE_COOKIE = None, config_sessionCookie = [],
                  fetched = [], raw_sent = [], slept = [], progress_totals = []\<rparr>"


text \<open>A response whose body arrives at the pace of the disk.\<close>

definition body_response :: "nat \<Rightarrow> header_list \<Rightarrow> string list \<Rightarrow> stream_end \<Rightarrow> response" where
  "body_response code hs cs e =
     \<lparr>res_status = code, res_headers = hs, res_body = Some \<lparr>events = paced cs, ending = e\<rparr>\<rparr>"

definition server_env :: "(nat \<Rightarrow> request \<Rightarrow> js_error + response) \<Rightarrow> env" where
  "server_env f =
     \<lparr>fetch_server = f, raw_server = (\<lambda>n req. Inl (Error ''offline'')),
      JSON_parse = (\<lambda>s. None), COOKIE = ''PUT_YOUR_COOKIE_HERE'', retryAttempts = 4\<rparr>"

definition state_with_files :: "(string \<times> string) list \<Rightarrow> state" where
  "state_with_files fl = empty_state\<lparr>files := map_of fl\<rparr>"

text \<open>
  A server that ignores the \<^verbatim>\<open>range\<close> header: it answers every request with status 200
  and the whole resource, ten bytes in two chunks.
\<close>

definition whole_resource :: response where
  "whole_resource =
     body_response 200 [(''content-length'', ''10'')] [''abcdef'', ''ghij''] EndOfStream"

definition no_range_env :: env where
  "no_range_env = server_env (\<lambda>n req. Inr whole_resource)"

text \<open>The same answer, with the whole body arriving in a burst, before the file is open.\<close>

definition burst_env :: env where
  "burst_env =
     server_env (\<lambda>n req.
       Inr \<lparr>res_status = 200, res_headers = [(''content-length'', ''10'')],
            res_body = Some \<lparr>events = [Data ''abcdef'', Data ''ghij''],
                              ending = EndOfStream\<rparr>\<rparr>)"

text \<open>
  A server whose HEAD answer declares \<^verbatim>\<open>content-length: 0\<close> and no range support, and
  which answers a GET with the whole resource.
\<close>

definition zero_length_env :: env where
  "zero_length_env =
     server_env (\<lambda>n req.
       if req_method req = ''HEAD''
       then Inr \<lparr>res_status = 200, res_headers = [(''content-length'', ''0'')], res_body = None\<rparr>
       else Inr whole_resource)"

text \<open>A server whose HEAD answer declares the ten bytes of the resource.\<close>

definition sized_env :: env where
  "sized_env =
     server_env (\<lambda>n req.
       if req_method req = ''HEAD''
       then Inr \<lparr>res_status = 200, res_headers = [(''content-length'', ''10'')], res_body = None\<rparr>
       else Inr whole_resource)"

text \<open>
  A server that honours the range request \<^verbatim>\<open>bytes=4-\<close> of a ten-byte resource. Its
  first response stalls after two bytes and is aborted (the \<^verbatim>\<open>AbortError\<close> of the
  idle-read timeout); its second response delivers the six bytes asked for.
\<close>

definition abortError :: js_error where
  "abortError =
     \<lparr>err_name = ''AbortError'', err_message = ''This operation was aborted'', err_cause_code = []\<rparr>"

definition stalling_env :: env where
  "stalling_env =
     server_env (\<lambda>n req.
       if n = 0 then Inr (body_response 206 [] [''ef''] (StreamError abortError))
       else Inr (body_response 206 [] [''efghij''] EndOfStream))"

text \<open>
  A site on which the login handshake works. The bodies are short texts that the
  example \<^verbatim>\<open>JSON.parse\<close> maps to the JSON values they stand for. The login page sets
  the \<^verbatim>\<open>csrftoken\<close> cookie, the check-active-user endpoint answers with the given body,
  the login-authentication endpoint sets the \<^verbatim>\<open>sessionid\<close> cookie, and the core-data
  endpoint reports an authenticated user exactly for the fresh session.
\<close>

definition example_parse :: "string \<Rightarrow> json option" where
  "example_parse s =
     map_of
       [(''check:get-pass'',
           JsObject [(''status'', JsString ''success''), (''message'', JsString ''get-pass'')]),
        (''check:get-otp'',
           JsObject [(''status'', JsString ''success''), (''message'', JsString ''get-otp'')]),
        (''login:ok'', JsObject [(''status'', JsString ''success'')]),
        (''core:anonymous'',
           JsObject [(''auth'', JsObject [(''details'', JsObject [(''is_authenticated'', JsBool False)])])]),
        (''core:member'',
           JsObject [(''auth'', JsObject [(''details'', JsObject [(''is_authenticated'', JsBool True)])])])]
       s"

definition login_site :: "string \<Rightarrow> nat \<Rightarrow> raw_request \<Rightarrow> js_error + raw_response" where
  "login_site check_body n req =
     (if rq_url req = ORIGIN @ ''/accounts/login/''
      then Inr \<lparr>rr_status = 200, rr_set_cookie = [''csrftoken=tok123; Path=/''], rr_body = []\<rparr>
      else if rq_url req = ORIGIN @ ''/api/v1/auth/check-active-user''
      then Inr \<lparr>rr_status = 200, rr_set_cookie = [], rr_body = check_body\<rparr>
      else if rq_url req = ORIGIN @ ''/api/v1/auth/login-authentication''
      then Inr \<lparr>rr_status = 200, rr_set_cookie = [''sessionid=fresh; HttpOnly''], rr_body = ''login:ok''\<rparr>
      else Inr \<lparr>rr_status = 404, rr_set_cookie = [], rr_body = []\<rparr>)"

definition profile_site :: "nat \<Rightarrow> request \<Rightarrow> js_error + response" where
  "profile_site n req =
     (if hget (req_headers req) ''cookie'' = Some ''csrftoken=tok123; sessionid=fresh''
      then Inr (body_response 200 [] [''core:member''] EndOfStream)
      else Inr (body_response 200 [] [''core:anonymous''] EndOfStream))"

definition login_env :: "string \<Rightarrow> string \<Rightarrow> env" where
  "login_env cookie check_body =
     \<lparr>fetch_server = profile_site, raw_server = login_site check_body,
      JSON_parse = example_parse, COOKIE = cookie, retryAttempts = 4\<rparr>"

text \<open>A server that answers every request with 404 and an empty body.\<close>

definition not_found_env :: env where
  "not_found_env = server_env (\<lambda>n req. Inr (body_response 404 [] [] EndOfStream))"

text \<open>
  A server that answers the first request with 408 and every later one with status 206
  and the last six bytes of the resource.
\<close>

definition busy_then_range_env :: env where
  "busy_then_range_env =
     server_env (\<lambda>n req.
       if n = 0 then Inr (body_response 408 [] [] EndOfStream)
       else Inr (body_response 206 [] [''efghij''] EndOfStream))"

section \<open>Properties\<close>

text \<open>
  C9. For every attempt number \<open>attempt \<ge> 1\<close> the backoff delay is exactly
  \<open>min(30000, 700 * 2^(attempt - 1))\<close> milliseconds. The function is pure, so the delay
  is a function of the attempt number alone (no jitter). In JavaScript the power
  overflows to \<^verbatim>\<open>Infinity\<close> for very large attempts; \<^verbatim>\<open>Math.min\<close> then still
  returns 30000, as the exact integer computation does.
\<close>

theorem toBackoffMs_formula:
  "1 \<le> attempt \<Longrightarrow> toBackoffMs attempt = min 30000 (700 * 2 ^ nat (attempt - 1))"
  by (simp add: toBackoffMs_def max_def)

theorem toBackoffMs_formula_witness:
  "(1::int) \<le> 3 \<and> toBackoffMs 3 = 2800 \<and> (1::int) \<le> 7 \<and> toBackoffMs 7 = 30000"
  using toBackoffMs_formula [of 3] toBackoffMs_formula [of 7] by simp

subsection \<open>The retrying request client\<close>




subsection \<open>Sample downloads\<close>

text \<open>
  Whatever the chunks, a byte limit with a positive limit emits the first
  \<open>limit - seen\<close> bytes of what is fed to it.
\<close>

lemma ByteLimit_output_prefix:
  "0 < bl_limit bl \<Longrightarrow>
   ByteLimit_output bl cs = take (nat (bl_limit bl - bl_seen bl)) (concat cs)"
proof (induction cs arbitrary: bl)
  case Nil
  then show ?case by simp
next
  case (Cons c cs)
  show ?case
  proof (cases "bl_limit bl - bl_seen bl \<le> 0")
    case True
    then show ?thesis
      using Cons.prems Cons.IH [of bl] by (simp add: ByteLimit_transform_def)
  next
    case False
    have n: "nat (bl_limit bl - bl_seen bl) - length c =
             nat (bl_limit bl - (bl_seen bl + int (length c)))"
      by arith
    show ?thesis
      using False Cons.prems
      by (auto simp: ByteLimit_transform_def Let_def Cons.IH n)
  qed
qed

text \<open>One call of \<^verbatim>\<open>_transform\<close>, below the limit and reaching it.\<close>

lemma ByteLimit_transform_below:
  assumes "0 < bl_limit bl" and "bl_seen bl < bl_limit bl"
    and "int (length c) < bl_limit bl - bl_seen bl"
  shows "ByteLimit_transform bl c = (Some c, bl\<lparr>bl_seen := bl_seen bl + int (length c)\<rparr>, False)"
  using assms by (auto simp: ByteLimit_transform_def Let_def)

lemma ByteLimit_transform_reach:
  assumes "0 < bl_limit bl" and "\<not> bl_hit bl" and "bl_seen bl < bl_limit bl"
    and "bl_limit bl - bl_seen bl \<le> int (length c)"
  shows "ByteLimit_transform bl c =
           (Some (take (nat (bl_limit bl - bl_seen bl)) c),
            bl\<lparr>bl_seen := bl_seen bl + int (length (take (nat (bl_limit bl - bl_seen bl)) c)),
               bl_hit := True\<rparr>, True)"
  using assms by (auto simp: ByteLimit_transform_def Let_def min_def)

text \<open>
  When the body delivers at least the bytes that are still missing, the limited pipeline
  reaches the limit. What the file has received by then, beyond what it held, is a
  prefix of the buffer of the write stream followed by the missing bytes: the rest is
  still in the buffer, and is dropped. The write stream never holds a buffer while it is
  idle.
\<close>

lemma pipeline_limited_cut:
  assumes "0 < bl_limit bl" and "\<not> bl_hit bl" and "bl_seen bl < bl_limit bl"
    and "bl_limit bl - bl_seen bl \<le> int (length (concat (chunks_of es)))"
    and "fs p = Some cur" and "ws_busy ws \<or> ws_buffer ws = []"
  shows "\<exists>ws' n. pipeline_limited p bl es (ws, fs) =
           (True, ws',
            fs(p \<mapsto> cur @ take n (ws_buffer ws @ take (nat (bl_limit bl - bl_seen bl)) (concat (chunks_of es)))))"
  using assms
proof (induction es arbitrary: bl ws fs cur)
  case Nil
  then show ?case by simp
next
  case (Cons e es)
  let ?rem = "nat (bl_limit bl - bl_seen bl)"
  show ?case
  proof (cases e)
    case FileDone
    let ?T = "take ?rem (concat (chunks_of es))"
    show ?thesis
    proof (cases "ws_busy ws \<and> ws_buffer ws \<noteq> []")
      case True
      let ?fs1 = "write_chunk p (ws_buffer ws) fs"
      have step: "ws_file_done p (ws, fs) = (ws\<lparr>ws_buffer := []\<rparr>, ?fs1)"
        using True by (simp add: ws_file_done_def)
      have f1: "?fs1 p = Some (cur @ ws_buffer ws)"
        using Cons.prems(5) by (simp add: write_chunk_def)
      have p4: "bl_limit bl - bl_seen bl \<le> int (length (concat (chunks_of es)))"
        using Cons.prems(4) FileDone by simp
      have i1: "ws_busy (ws\<lparr>ws_buffer := []\<rparr>) \<or> ws_buffer (ws\<lparr>ws_buffer := []\<rparr>) = []"
        by simp
      obtain ws' n where r: "pipeline_limited p bl es (ws\<lparr>ws_buffer := []\<rparr>, ?fs1) =
          (True, ws', ?fs1(p \<mapsto> (cur @ ws_buffer ws) @ take n (ws_buffer (ws\<lparr>ws_buffer := []\<rparr>) @ ?T)))"
        using Cons.IH [where bl = bl and fs = ?fs1 and cur = "cur @ ws_buffer ws" and ws = "ws\<lparr>ws_buffer := []\<rparr>", OF Cons.prems(1,2,3) p4 f1 i1] by blast
      have "?fs1(p \<mapsto> (cur @ ws_buffer ws) @ take n (ws_buffer (ws\<lparr>ws_buffer := []\<rparr>) @ ?T)) =
            fs(p \<mapsto> cur @ take (length (ws_buffer ws) + n) (ws_buffer ws @ ?T))"
        by (simp add: write_chunk_def)
      then show ?thesis
        using r step FileDone by (metis chunks_of.simps(3) pipeline_limited.simps(2))
    next
      case False
      define ws1 where "ws1 = (if ws_busy ws then ws\<lparr>ws_busy := False\<rparr> else ws)"
      have step: "ws_file_done p (ws, fs) = (ws1, fs)"
        using False by (auto simp: ws_file_done_def ws1_def)
      have b1: "ws_buffer ws1 = ws_buffer ws"
        by (simp add: ws1_def)
      have i1: "ws_busy ws1 \<or> ws_buffer ws1 = []"
        using False Cons.prems(6) by (auto simp: ws1_def)
      have p4: "bl_limit bl - bl_seen bl \<le> int (length (concat (chunks_of es)))"
        using Cons.prems(4) FileDone by simp
      obtain ws' n where r: "pipeline_limited p bl es (ws1, fs) =
          (True, ws', fs(p \<mapsto> cur @ take n (ws_buffer ws1 @ ?T)))"
        using Cons.IH [where bl = bl and fs = fs and cur = cur and ws = ws1, OF Cons.prems(1,2,3) p4 Cons.prems(5) i1] by blast
      show ?thesis
        using r step FileDone b1 by (metis chunks_of.simps(3) pipeline_limited.simps(2))
    qed
  next
    case (Data c)
    show ?thesis
    proof (cases "bl_limit bl - bl_seen bl \<le> int (length c)")
      case True
      let ?buf = "take ?rem c"
      have tr: "ByteLimit_transform bl c =
           (Some ?buf, bl\<lparr>bl_seen := bl_seen bl + int (length ?buf), bl_hit := True\<rparr>, True)"
        using ByteLimit_transform_reach [OF Cons.prems(1,2,3) True] .
      have T: "take ?rem (concat (chunks_of (e # es))) = ?buf"
        using True Data by simp
      have ne: "?buf \<noteq> []"
        using True Cons.prems(3) by auto
      have run: "pipeline_limited p bl (e # es) (ws, fs) = (True, ws_write p ?buf (ws, fs))"
        using Data tr by simp
      show ?thesis
      proof (cases "ws_busy ws")
        case True
        have "ws_write p ?buf (ws, fs) = (ws\<lparr>ws_buffer := ws_buffer ws @ ?buf\<rparr>, fs)"
          using True ne by (simp add: ws_write_def)
        moreover have "fs = fs(p \<mapsto> cur @ take 0 (ws_buffer ws @ ?buf))"
          using Cons.prems(5) by auto
        ultimately show ?thesis
          unfolding run T by metis
      next
        case False
        then have be: "ws_buffer ws = []" using Cons.prems(6) by simp
        have "ws_write p ?buf (ws, fs) = (ws\<lparr>ws_busy := True\<rparr>, fs(p \<mapsto> cur @ ?buf))"
          using False ne Cons.prems(5) by (simp add: ws_write_def write_chunk_def)
        moreover have "fs(p \<mapsto> cur @ ?buf) = fs(p \<mapsto> cur @ take ?rem (ws_buffer ws @ ?buf))"
          using be by simp
        ultimately show ?thesis
          unfolding run T by metis
      qed
    next
      case False
      let ?bl' = "bl\<lparr>bl_seen := bl_seen bl + int (length c)\<rparr>"
      let ?T' = "take (nat (bl_limit ?bl' - bl_seen ?bl')) (concat (chunks_of es))"
      have tr: "ByteLimit_transform bl c = (Some c, ?bl', False)"
        using ByteLimit_transform_below [OF Cons.prems(1,3)] False by simp
      have run: "pipeline_limited p bl (e # es) (ws, fs) =
                 pipeline_limited p ?bl' es (ws_write p c (ws, fs))"
        using Data tr by simp
      have n: "?rem - length c = nat (bl_limit ?bl' - bl_seen ?bl')"
        by simp
      have T: "take ?rem (concat (chunks_of (e # es))) = c @ ?T'"
        using False Data n by simp
      have pre: "0 < bl_limit ?bl'" "\<not> bl_hit ?bl'" "bl_seen ?bl' < bl_limit ?bl'"
        "bl_limit ?bl' - bl_seen ?bl' \<le> int (length (concat (chunks_of es)))"
        using Cons.prems False Data by auto
      show ?thesis
      proof (cases "c = [] \<or> ws_busy ws")
        case True
        define ws1 where "ws1 = (if c = [] then ws else ws\<lparr>ws_buffer := ws_buffer ws @ c\<rparr>)"
        have step: "ws_write p c (ws, fs) = (ws1, fs)"
          using True by (auto simp: ws_write_def ws1_def)
        have b1: "ws_buffer ws1 = ws_buffer ws @ c"
          by (simp add: ws1_def)
        have i1: "ws_busy ws1 \<or> ws_buffer ws1 = []"
          using True Cons.prems(6) by (auto simp: ws1_def)
        obtain ws' n where r: "pipeline_limited p ?bl' es (ws1, fs) =
            (True, ws', fs(p \<mapsto> cur @ take n (ws_buffer ws1 @ ?T')))"
          using Cons.IH [where bl = ?bl' and fs = fs and cur = cur and ws = ws1, OF pre Cons.prems(5) i1] by blast
        have "fs(p \<mapsto> cur @ take n (ws_buffer ws1 @ ?T')) =
              fs(p \<mapsto> cur @ take n (ws_buffer ws @ c @ ?T'))"
          using b1 by simp
        then show ?thesis
          unfolding run T step using r by metis
      next
        case False
        then have be: "ws_buffer ws = []" using Cons.prems(6) by simp
        let ?fs1 = "fs(p \<mapsto> cur @ c)"
        have step: "ws_write p c (ws, fs) = (ws\<lparr>ws_busy := True\<rparr>, ?fs1)"
          using False Cons.prems(5) by (simp add: ws_write_def write_chunk_def)
        have f1: "?fs1 p = Some (cur @ c)" by simp
        have i1: "ws_busy (ws\<lparr>ws_busy := True\<rparr>) \<or> ws_buffer (ws\<lparr>ws_busy := True\<rparr>) = []" by simp
        obtain ws' n where r: "pipeline_limited p ?bl' es (ws\<lparr>ws_busy := True\<rparr>, ?fs1) =
            (True, ws', ?fs1(p \<mapsto> (cur @ c) @ take n (ws_buffer (ws\<lparr>ws_busy := True\<rparr>) @ ?T')))"
          using Cons.IH [where bl = ?bl' and fs = ?fs1 and cur = "cur @ c" and ws = "ws\<lparr>ws_busy := True\<rparr>", OF pre f1 i1] by blast
        have "?fs1(p \<mapsto> (cur @ c) @ take n (ws_buffer (ws\<lparr>ws_busy := True\<rparr>) @ ?T')) =
              fs(p \<mapsto> cur @ take (length c + n) (ws_buffer ws @ c @ ?T'))"
          using be by simp
        then show ?thesis
          unfolding run T step using r by metis
      qed
    qed
  qed
qed

text \<open>
  When the body arrives at the pace of the disk, the write stream is idle at every chunk,
  and the file has received exactly the missing bytes when the limit is reached.
\<close>

lemma pipeline_limited_paced:
  assumes "0 < bl_limit bl" and "\<not> bl_hit bl" and "bl_seen bl < bl_limit bl"
    and "bl_limit bl - bl_seen bl \<le> int (length (concat cs))"
    and "fs p = Some cur" and "ws_buffer ws = []"
  shows "\<exists>ws'. pipeline_limited p bl (paced cs) (ws, fs) =
           (True, ws', fs(p \<mapsto> cur @ take (nat (bl_limit bl - bl_seen bl)) (concat cs)))"
  using assms
proof (induction cs arbitrary: bl ws fs cur)
  case Nil
  then show ?case by simp
next
  case (Cons c cs)
  let ?rem = "nat (bl_limit bl - bl_seen bl)"
  let ?ws1 = "ws\<lparr>ws_busy := False\<rparr>"
  have done1: "ws_file_done p (ws, fs) = (?ws1, fs)"
    using Cons.prems(6) by (simp add: ws_file_done_def)
  show ?case
  proof (cases "bl_limit bl - bl_seen bl \<le> int (length c)")
    case True
    let ?buf = "take ?rem c"
    have tr: "ByteLimit_transform bl c =
         (Some ?buf, bl\<lparr>bl_seen := bl_seen bl + int (length ?buf), bl_hit := True\<rparr>, True)"
      using ByteLimit_transform_reach [OF Cons.prems(1,2,3) True] .
    have ne: "?buf \<noteq> []"
      using True Cons.prems(3) by auto
    have wr: "ws_write p ?buf (?ws1, fs) = (?ws1\<lparr>ws_busy := True\<rparr>, fs(p \<mapsto> cur @ ?buf))"
      using ne Cons.prems(5) by (simp add: ws_write_def write_chunk_def)
    have T: "take ?rem (concat (c # cs)) = ?buf"
      using True by simp
    have run: "pipeline_limited p bl (paced (c # cs)) (ws, fs) = (True, ws_write p ?buf (?ws1, fs))"
      by (simp add: done1 tr)
    show ?thesis
      unfolding T run wr by blast
  next
    case False
    let ?bl' = "bl\<lparr>bl_seen := bl_seen bl + int (length c)\<rparr>"
    let ?T' = "take (nat (bl_limit ?bl' - bl_seen ?bl')) (concat cs)"
    have tr: "ByteLimit_transform bl c = (Some c, ?bl', False)"
      using ByteLimit_transform_below [OF Cons.prems(1,3)] False by simp
    have run: "pipeline_limited p bl (paced (c # cs)) (ws, fs) =
               pipeline_limited p ?bl' (paced cs) (ws_write p c (?ws1, fs))"
      by (simp add: done1 tr)
    have n: "?rem - length c = nat (bl_limit ?bl' - bl_seen ?bl')"
      by simp
    have T: "take ?rem (concat (c # cs)) = c @ ?T'"
      using False n by simp
    have pre: "0 < bl_limit ?bl'" "\<not> bl_hit ?bl'" "bl_seen ?bl' < bl_limit ?bl'"
      "bl_limit ?bl' - bl_seen ?bl' \<le> int (length (concat cs))"
      using Cons.prems False by auto
    define ws2 where "ws2 = (if c = [] then ?ws1 else ?ws1\<lparr>ws_busy := True\<rparr>)"
    let ?fs2 = "fs(p \<mapsto> cur @ c)"
    have wr: "ws_write p c (?ws1, fs) = (ws2, ?fs2)"
      using Cons.prems(5) by (auto simp: ws_write_def write_chunk_def ws2_def)
    have b2: "ws_buffer ws2 = []"
      using Cons.prems(6) by (simp add: ws2_def)
    have f2: "?fs2 p = Some (cur @ c)" by simp
    obtain ws' where r: "pipeline_limited p ?bl' (paced cs) (ws2, ?fs2) =
        (True, ws', ?fs2(p \<mapsto> (cur @ c) @ ?T'))"
      using Cons.IH [where bl = ?bl' and fs = ?fs2 and cur = "cur @ c" and ws = ws2, OF pre f2 b2]
      by blast
    have "?fs2(p \<mapsto> (cur @ c) @ ?T') = fs(p \<mapsto> cur @ c @ ?T')"
      by simp
    then show ?thesis
      unfolding run T wr using r by metis
  qed
qed

lemma finalize_download_sample:
  assumes "fs (filePath @ ''.part'') = Some d"
  shows "finalize_download (filePath @ ''.part'') filePath fs filePath = Some d \<and>
         finalize_download (filePath @ ''.part'') filePath fs (filePath @ ''.part'') = None"
  using assms by (simp add: finalize_download_def fs_rename_def unlink_quiet_def)

text \<open>
  The transfer of a sample: the pipeline reaches the limit, the write stream is destroyed,
  and what the temporary file has received becomes the final file.
\<close>

lemma transfer_sample:
  assumes "0 < K" and "K \<le> int (length (concat (chunks b)))"
  shows "\<exists>fs' n. transfer filePath K off res b st =
           (Inr RDownloaded, st\<lparr>files := fs', progress_totals := progress_totals st @ [JNum K]\<rparr>) \<and>
         n \<le> nat K \<and>
         fs' filePath = Some (take n (concat (chunks b))) \<and>
         fs' (filePath @ ''.part'') = None \<and>
         (events b = paced (chunks b) \<longrightarrow> n = nat K)"
proof -
  let ?tmp = "filePath @ ''.part''"
  let ?fs1 = "createWriteStream ?tmp ''w'' (files st)"
  let ?data = "concat (chunks b)"
  have open1: "?fs1 ?tmp = Some []"
    by (simp add: createWriteStream_def)
  have bl: "0 < bl_limit (new_ByteLimit K)" "\<not> bl_hit (new_ByteLimit K)"
    "bl_seen (new_ByteLimit K) < bl_limit (new_ByteLimit K)"
    "bl_limit (new_ByteLimit K) - bl_seen (new_ByteLimit K) \<le> int (length (concat (chunks_of (events b))))"
    "nat (bl_limit (new_ByteLimit K) - bl_seen (new_ByteLimit K)) = nat K"
    using assms by (simp_all add: new_ByteLimit_def chunks_def)
  have "\<exists>ws' n. pipeline_limited ?tmp (new_ByteLimit K) (events b) (new_write_stream, ?fs1) =
          (True, ws', ?fs1(?tmp \<mapsto> take n ?data)) \<and> n \<le> nat K \<and>
          (events b = paced (chunks b) \<longrightarrow> n = nat K)"
  proof (cases "events b = paced (chunks b)")
    case True
    have bl4: "bl_limit (new_ByteLimit K) - bl_seen (new_ByteLimit K) \<le> int (length (concat (chunks b)))"
      using bl(4) by (simp add: chunks_def)
    have "\<exists>ws'. pipeline_limited ?tmp (new_ByteLimit K) (paced (chunks b)) (new_write_stream, ?fs1) =
          (True, ws', ?fs1(?tmp \<mapsto> [] @ take (nat (bl_limit (new_ByteLimit K) - bl_seen (new_ByteLimit K))) (concat (chunks b))))"
      by (rule pipeline_limited_paced
              [where fs = ?fs1 and p = ?tmp and cur = "[]" and ws = new_write_stream,
               OF bl(1,2,3) bl4 open1])
           (simp add: new_write_stream_def)
    then show ?thesis
      using True bl(5) by auto
  next
    case False
    have "\<exists>ws' n. pipeline_limited ?tmp (new_ByteLimit K) (events b) (new_write_stream, ?fs1) =
          (True, ws', ?fs1(?tmp \<mapsto> [] @ take n (ws_buffer new_write_stream @
             take (nat (bl_limit (new_ByteLimit K) - bl_seen (new_ByteLimit K))) (concat (chunks_of (events b))))))"
      by (rule pipeline_limited_cut
              [where fs = ?fs1 and p = ?tmp and cur = "[]" and ws = new_write_stream,
               OF bl(1,2,3,4) open1])
           (simp add: new_write_stream_def)
    then obtain ws' n where r: "pipeline_limited ?tmp (new_ByteLimit K) (events b) (new_write_stream, ?fs1) =
          (True, ws', ?fs1(?tmp \<mapsto> take n (take (nat K) ?data)))"
      using bl(5) by (auto simp: new_write_stream_def chunks_def)
    have "take n (take (nat K) ?data) = take (min n (nat K)) ?data"
      by (simp add: min.commute)
    then show ?thesis
      using r False by (metis min.cobounded2)
  qed
  then obtain ws' n where pl: "pipeline_limited ?tmp (new_ByteLimit K) (events b) (new_write_stream, ?fs1) =
          (True, ws', ?fs1(?tmp \<mapsto> take n ?data))"
    and n: "n \<le> nat K" and ex: "events b = paced (chunks b) \<longrightarrow> n = nat K"
    by blast
  let ?fs = "finalize_download ?tmp filePath (?fs1(?tmp \<mapsto> take n ?data))"
  have tr: "transfer filePath K off res b st =
      (Inr RDownloaded, st\<lparr>files := ?fs, progress_totals := progress_totals st @ [JNum K]\<rparr>)"
    using assms(1) by (simp add: transfer_def Let_def pl expectedTotal_def ws_destroy_def)
  have f: "?fs filePath = Some (take n ?data) \<and> ?fs ?tmp = None"
    by (rule finalize_download_sample) simp
  show ?thesis
    using tr f n ex by blast
qed

text \<open>
  C2, as amended. A sample download with cap \<open>K > 0\<close>, at least one attempt allowed and
  no bytes at the final path yet, of a resource of which the server delivers at least
  \<open>K\<close> bytes in a response with a 2xx status (exactly \<open>K\<close> when it honours the range
  request, more when it ignores it). Then \<open>downloadToFile\<close> returns \<open>downloaded\<close>, and
  the cut-off caused no retry: one request was sent and no backoff delay was slept. The
  temporary file is gone, and the final file holds a prefix of the first \<open>K\<close> bytes of
  the body, so never more than \<open>K\<close> bytes. When the body arrives at the pace of the disk,
  the final file holds exactly the first \<open>K\<close> bytes. The byte limit itself, for any
  input, emits the first \<open>K\<close> bytes of the input and nothing more.
\<close>

theorem sample_download_capped:
  assumes "0 < K" and "1 \<le> maxRetries"
    and "stat_size_or_0 st filePath = 0"
    and "fetch_server env (length (fetched st)) (download_request env st u referer K 0) = Inr res"
    and "res_ok res" and "res_body res = Some b"
    and "K \<le> int (length (concat (chunks b)))"
  shows "fst (downloadToFile env u filePath referer maxRetries K st) = Inr RDownloaded \<and>
         (\<exists>n. n \<le> nat K \<and>
              files (snd (downloadToFile env u filePath referer maxRetries K st)) filePath =
                Some (take n (concat (chunks b)))) \<and>
         (events b = paced (chunks b) \<longrightarrow>
            files (snd (downloadToFile env u filePath referer maxRetries K st)) filePath =
              Some (take (nat K) (concat (chunks b))) \<and>
            int (length (take (nat K) (concat (chunks b)))) = K) \<and>
         files (snd (downloadToFile env u filePath referer maxRetries K st)) (filePath @ ''.part'') = None \<and>
         fetched (snd (downloadToFile env u filePath referer maxRetries K st)) =
           fetched st @ [download_request env st u referer K 0] \<and>
         slept (snd (downloadToFile env u filePath referer maxRetries K st)) = slept st \<and>
         (\<forall>cs. ByteLimit_output (new_ByteLimit K) cs = take (nat K) (concat cs))"
proof -
  let ?st2 = "st\<lparr>fetched := fetched st @ [download_request env st u referer K 0]\<rparr>"
  let ?vars = "\<lparr>existingTmpSize = stat_size_or_0 st (filePath @ ''.part''),
                existingFinalSize = 0, remoteInfo = None\<rparr>"
  obtain fs' n where tr: "transfer filePath K 0 res b ?st2 =
           (Inr RDownloaded, ?st2\<lparr>files := fs', progress_totals := progress_totals ?st2 @ [JNum K]\<rparr>)"
    and n: "n \<le> nat K"
    and f1: "fs' filePath = Some (take n (concat (chunks b)))"
    and f2: "fs' (filePath @ ''.part'') = None"
    and ex: "events b = paced (chunks b) \<longrightarrow> n = nat K"
    using transfer_sample [OF assms(1) assms(7), of filePath 0 res ?st2] by blast
  have att: "download_attempt env u filePath referer K ?vars st =
      (Inr RDownloaded, ?vars, ?st2\<lparr>files := fs', progress_totals := progress_totals ?st2 @ [JNum K]\<rparr>)"
    using assms tr
    by (simp add: download_attempt_def resume_decision_def fetchWithTimeout_def fetch_def accepted_body_def)
  have run: "downloadToFile env u filePath referer maxRetries K st =
      (Inr RDownloaded, ?st2\<lparr>files := fs', progress_totals := progress_totals ?st2 @ [JNum K]\<rparr>)"
    using assms(1,2,3) att
    by (simp add: downloadToFile_def Let_def downloadToFile_from.simps [of _ _ _ _ _ _ 1])
  have pre: "\<forall>cs. ByteLimit_output (new_ByteLimit K) cs = take (nat K) (concat cs)"
    using assms(1) ByteLimit_output_prefix [of "new_ByteLimit K"] by (simp add: new_ByteLimit_def)
  have len: "int (length (take (nat K) (concat (chunks b)))) = K"
    using assms(1,7) by simp
  have a: "\<exists>n. n \<le> nat K \<and> fs' filePath = Some (take n (concat (chunks b)))"
    using n f1 by blast
  have b: "events b = paced (chunks b) \<longrightarrow> fs' filePath = Some (take (nat K) (concat (chunks b)))"
    using ex f1 by simp
  show ?thesis
    unfolding run using a b f2 pre len by simp
qed

theorem sample_download_capped_witness:
  "fst (downloadToFile no_range_env ''u'' ''f'' [] 4 4 (state_with_files [])) = Inr RDownloaded \<and>
   files (snd (downloadToFile no_range_env ''u'' ''f'' [] 4 4 (state_with_files []))) ''f'' =
     Some ''abcd'' \<and>
   files (snd (downloadToFile no_range_env ''u'' ''f'' [] 4 4 (state_with_files []))) ''f.part'' = None \<and>
   slept (snd (downloadToFile no_range_env ''u'' ''f'' [] 4 4 (state_with_files []))) = []"
proof -
  let ?b = "\<lparr>events = paced [''abcdef'', ''ghij''], ending = EndOfStream\<rparr>"
  have h3: "stat_size_or_0 (state_with_files []) ''f'' = 0" by code_simp
  have h4: "fetch_server no_range_env (length (fetched (state_with_files [])))
              (download_request no_range_env (state_with_files []) ''u'' [] 4 0) = Inr whole_resource"
    by (simp add: no_range_env_def server_env_def)
  have h5: "res_ok whole_resource" by code_simp
  have h6: "res_body whole_resource = Some ?b"
    by (simp add: whole_resource_def body_response_def)
  have h7: "(4::int) \<le> int (length (concat (chunks ?b)))"
    by (simp add: chunks_def)
  have h8: "events ?b = paced (chunks ?b)"
    by (simp add: chunks_def)
  show ?thesis
    using sample_download_capped
      [of 4 4 "state_with_files []" "''f''" no_range_env "''u''" "[]" whole_resource,
       OF _ _ h3 h4 h5 h6 h7] h8
    by (simp add: state_with_files_def empty_state_def chunks_def)
qed

text \<open>
  C2 as stated fails when the final path already holds bytes. The resource has ten
  bytes, the cap is 4, and the final file holds two bytes: the call returns \<open>exists\<close>
  at its first check, sends no request, and leaves the two bytes as they are.
\<close>

theorem sample_exists_counterexample:
  "(case downloadToFile no_range_env ''u'' ''f'' [] 4 4 (state_with_files [(''f'', ''xy'')]) of
      (r, st) \<Rightarrow> (r, files st ''f'', length (fetched st))) =
     (Inr RExists, Some ''xy'', 0)"
  by code_simp

text \<open>
  What the amended statement leaves open is how much of the sample reaches the file when
  the body outruns the disk. The callback of the byte limit destroys the source inside
  the call of \<^verbatim>\<open>_transform\<close> that reaches the limit, and \<^verbatim>\<open>pipeline\<close> then destroys the
  write stream with what it has buffered. When the whole body arrives before the file is
  open, every chunk is still in the buffer: the call returns \<open>downloaded\<close> after one
  request, and the final file is empty.
\<close>

lemma burst_loses_sample:
  "(case downloadToFile burst_env ''u'' ''f'' [] 4 4 (state_with_files []) of
      (r, st) \<Rightarrow> (r, files st ''f'', files st ''f.part'', length (fetched st), slept st)) =
     (Inr RDownloaded, Some [], None, 1, [])"
  by code_simp

subsection \<open>Progress accounting\<close>

lemma digit_not_space: "is_digit c \<Longrightarrow> \<not> is_js_space c"
  by (auto simp: is_digit_def is_js_space_def)

lemma digit_not_sign: "is_digit c \<Longrightarrow> c \<noteq> CHR ''-'' \<and> c \<noteq> CHR ''+''"
  by (auto simp: is_digit_def)

lemma parseInt10_digits:
  assumes "ds \<noteq> []" and "\<forall>c\<in>set ds. is_digit c"
  shows "parseInt10 ds = JNum (int (digits_val ds))"
proof -
  obtain c cs where ds: "ds = c # cs" using assms(1) by (cases ds) auto
  have c: "is_digit c" using assms(2) ds by simp
  have tw: "takeWhile is_digit ds = ds" using assms(2) by (simp add: takeWhile_eq_all_conv)
  show ?thesis
    using digit_not_space [OF c] digit_not_sign [OF c] tw
    by (simp add: parseInt10_def ds Let_def)
qed

lemma match_total_digits:
  "match_total cr = Some ds \<Longrightarrow> ds \<noteq> [] \<and> (\<forall>c\<in>set ds. is_digit c)"
  by (auto simp: match_total_def Let_def split: if_splits dest: set_takeWhileD)

lemma range_total_cases:
  "range_total h =
     (case (case h of None \<Rightarrow> None | Some cr \<Rightarrow> match_total cr) of
        None \<Rightarrow> JUndefined | Some ds \<Rightarrow> JNum (int (digits_val ds)))"
  by (auto simp: range_total_def split: option.splits dest!: match_total_digits
        intro: parseInt10_digits)

text \<open>
  C8, as amended. The expected total of a transfer is: the sample cap when sampling; else
  the total declared by the response's content-range header, when the header ends in a
  slash and digits (always a number then); else \<open>resumeOffset + content-length\<close> when
  resuming and the content-length header parses to a number other than zero; else the
  plain content-length as parsed (a number, possibly zero, or NaN); else undefined, when
  there is no content-length header.
\<close>

theorem expectedTotal_priority:
  "expectedTotal sampleBytes contentRange contentLength resumeOffset =
     (if sampleBytes > 0 then JNum sampleBytes
      else if range_total contentRange \<noteq> JUndefined then range_total contentRange
      else case header_number contentLength of
             JNum n \<Rightarrow> if n \<noteq> 0 \<and> resumeOffset > 0 then JNum (resumeOffset + n) else JNum n
           | JNaN \<Rightarrow> JNaN
           | JUndefined \<Rightarrow> JUndefined) \<and>
   range_total contentRange \<noteq> JNaN"
  by (auto simp: expectedTotal_def Let_def range_total_cases range_total_def
        split: option.splits jsnum.splits dest!: match_total_digits intro: parseInt10_digits)

text \<open>
  C8 as stated fails for a resumed transfer (offset 5) whose response has no content-range
  total and declares \<^verbatim>\<open>content-length: 0\<close>: the claim gives \<open>5 + 0\<close>, the code gives 0,
  because \<^verbatim>\<open>fullLength && resumeOffset > 0\<close> is false for a length of zero.
\<close>

theorem expectedTotal_zero_length_counterexample:
  "expectedTotal 0 None (Some ''0'') 5 = JNum 0 \<and>
   expectedTotal_as_claimed 0 None (Some ''0'') 5 = JNum 5"
  by code_simp

subsection \<open>The pre-flight checks\<close>

lemma same_but_requests_step:
  "same_but_requests req (sleep ms (st\<lparr>fetched := fetched st @ [req]\<rparr>)) st' \<Longrightarrow>
   same_but_requests req st st'"
  unfolding same_but_requests_def sleep_def
  by (auto intro: exI [of _ "Suc k" for k])

text \<open>Whatever the server does, \<open>fetchWithRetry\<close> only sends its request and sleeps.\<close>

lemma fetchWithRetry_from_effects:
  "nat (R + 1 - a) = n \<Longrightarrow> same_but_requests req st (snd (fetchWithRetry_from env req R a le st))"
proof (induction n arbitrary: a le st)
  case 0
  then have "\<not> a \<le> R" by simp
  then show ?case
    by (subst fetchWithRetry_from.simps) (simp add: same_but_requests_def)
next
  case (Suc n)
  then have le: "a \<le> R" and n: "nat (R + 1 - (a + 1)) = n" by simp_all
  note IH = Suc.IH [OF n, THEN same_but_requests_step]
  have one: "same_but_requests req st (st\<lparr>fetched := fetched st @ [req]\<rparr>)"
    by (auto simp: same_but_requests_def intro: exI [of _ "Suc 0"])
  show ?case
    using le IH one
    by (subst fetchWithRetry_from.simps)
       (auto simp: fetchWithTimeout_def fetch_def split: sum.splits)
qed

lemma fetchWithRetry_effects:
  "same_but_requests req st (snd (fetchWithRetry env req R st))"
  unfolding fetchWithRetry_def by (rule fetchWithRetry_from_effects [OF refl])

lemma commonHeaders_cong:
  "ACTIVE_COOKIE st' = ACTIVE_COOKIE st \<Longrightarrow> commonHeaders env st' referer = commonHeaders env st referer"
  by (simp add: commonHeaders_def)

text \<open>
  The probe touches no file; it sends HEAD requests and then, possibly, requests for the
  first byte.
\<close>

lemma getRemoteSizeAndRanges_effects:
  "files (snd (getRemoteSizeAndRanges env u referer st)) = files st \<and>
   ACTIVE_COOKIE (snd (getRemoteSizeAndRanges env u referer st)) = ACTIVE_COOKIE st \<and>
   (\<exists>k j. fetched (snd (getRemoteSizeAndRanges env u referer st)) =
      fetched st @ replicate k (head_request env st u referer)
                 @ replicate j (first_byte_request env st u referer))"
proof -
  let ?h = "head_request env st u referer"
  obtain r1 st1 where f1: "fetchWithRetry env ?h (retryAttempts env) st = (r1, st1)"
    by (cases "fetchWithRetry env ?h (retryAttempts env) st")
  have s1: "same_but_requests ?h st st1"
    using fetchWithRetry_effects [of ?h st env "retryAttempts env"] f1 by simp
  then obtain k where k: "fetched st1 = fetched st @ replicate k ?h"
    and fl1: "files st1 = files st" and ac1: "ACTIVE_COOKIE st1 = ACTIVE_COOKIE st"
    by (auto simp: same_but_requests_def)
  show ?thesis
  proof (cases "head_info r1")
    case (Some info)
    then have "snd (getRemoteSizeAndRanges env u referer st) = st1"
      using f1 by (simp add: getRemoteSizeAndRanges_def)
    moreover have "fetched st1 =
        fetched st @ replicate k ?h @ replicate 0 (first_byte_request env st u referer)"
      using k by simp
    ultimately show ?thesis
      using fl1 ac1 by blast
  next
    case None
    let ?g = "first_byte_request env st1 u referer"
    have g: "?g = first_byte_request env st u referer"
      by (simp add: first_byte_request_def commonHeaders_cong [OF ac1])
    obtain r2 st2 where f2: "fetchWithRetry env ?g (retryAttempts env) st1 = (r2, st2)"
      by (cases "fetchWithRetry env ?g (retryAttempts env) st1")
    have "same_but_requests ?g st1 st2"
      using fetchWithRetry_effects [of ?g st1 env "retryAttempts env"] f2 by simp
    then obtain j where j: "fetched st2 = fetched st1 @ replicate j ?g"
      and fl2: "files st2 = files st1" and ac2: "ACTIVE_COOKIE st2 = ACTIVE_COOKIE st1"
      by (auto simp: same_but_requests_def)
    have "snd (getRemoteSizeAndRanges env u referer st) = st2"
      using f1 f2 None by (simp add: getRemoteSizeAndRanges_def)
    moreover have "fetched st2 =
        fetched st @ replicate k ?h @ replicate j (first_byte_request env st u referer)"
      using j k g by simp
    ultimately show ?thesis
      using fl1 ac1 fl2 ac2 by auto
  qed
qed

text \<open>
  C6, as amended. A full download (\<^verbatim>\<open>sampleBytes = 0\<close>) of a final file that has bytes,
  when the probe reports a size \<open>n\<close> that is a number other than zero and at most the
  local size: \<open>downloadToFile\<close> returns \<open>exists\<close> in the state the probe left. No file
  has changed, and the only requests sent are those of the probe: HEAD requests, then
  possibly requests for the first byte (\<^verbatim>\<open>range: bytes=0-0\<close>); the request that
  transfers the body is never sent.
\<close>

theorem already_complete_exists:
  assumes "0 < stat_size_or_0 st filePath"
    and "ri_size (fst (getRemoteSizeAndRanges env u referer st)) = JNum n"
    and "n \<noteq> 0" and "n \<le> stat_size_or_0 st filePath"
  shows "fst (downloadToFile env u filePath referer maxRetries 0 st) = Inr RExists \<and>
         snd (downloadToFile env u filePath referer maxRetries 0 st) =
           snd (getRemoteSizeAndRanges env u referer st) \<and>
         files (snd (downloadToFile env u filePath referer maxRetries 0 st)) = files st \<and>
         (\<exists>k j. fetched (snd (downloadToFile env u filePath referer maxRetries 0 st)) =
            fetched st @ replicate k (head_request env st u referer)
                       @ replicate j (first_byte_request env st u referer))"
proof -
  have run: "downloadToFile env u filePath referer maxRetries 0 st =
        (Inr RExists, snd (getRemoteSizeAndRanges env u referer st))"
    using assms
    by (cases "getRemoteSizeAndRanges env u referer st") (simp add: downloadToFile_def Let_def)
  show ?thesis
    unfolding run using getRemoteSizeAndRanges_effects [of env u referer st] by simp
qed

theorem already_complete_exists_witness:
  "fst (downloadToFile sized_env ''u'' ''f'' [] 4 0 (state_with_files [(''f'', ''abcdefghij'')])) =
     Inr RExists \<and>
   map req_method
     (fetched (snd (downloadToFile sized_env ''u'' ''f'' [] 4 0
                      (state_with_files [(''f'', ''abcdefghij'')])))) = [''HEAD'']"
proof -
  let ?st = "state_with_files [(''f'', ''abcdefghij'')]"
  have h1: "0 < stat_size_or_0 ?st ''f''" by code_simp
  have h2: "ri_size (fst (getRemoteSizeAndRanges sized_env ''u'' [] ?st)) = JNum 10" by code_simp
  have h4: "(10::int) \<le> stat_size_or_0 ?st ''f''" by code_simp
  have h5: "map req_method (fetched (snd (getRemoteSizeAndRanges sized_env ''u'' [] ?st))) = [''HEAD'']"
    by code_simp
  show ?thesis
    using already_complete_exists [of ?st "''f''" sized_env "''u''" "[]" 10 4, OF h1 h2 _ h4] h5
    by simp
qed

text \<open>
  C6 as stated fails when the remote size is known to be zero (a HEAD answer with
  \<^verbatim>\<open>content-length: 0\<close>): the local file of three bytes is not smaller, but
  \<^verbatim>\<open>remoteInfo.size && ...\<close> is false for a size of zero, and the resource is downloaded
  with a GET request.
\<close>

theorem zero_size_counterexample:
  "stat_size_or_0 (state_with_files [(''f'', ''abc'')]) ''f'' = 3 \<and>
   ri_size (fst (getRemoteSizeAndRanges zero_length_env ''u'' [] (state_with_files [(''f'', ''abc'')]))) = JNum 0 \<and>
   fst (downloadToFile zero_length_env ''u'' ''f'' [] 4 0 (state_with_files [(''f'', ''abc'')])) =
     Inr RDownloaded \<and>
   map req_method
     (fetched (snd (downloadToFile zero_length_env ''u'' ''f'' [] 4 0
                      (state_with_files [(''f'', ''abc'')])))) = [''HEAD'', ''GET'']"
  by code_simp

text \<open>
  C10, as amended. When \<open>maxRetries < 1\<close> and neither early return of the pre-flight
  applies, the loop body never runs: \<open>downloadToFile\<close> returns \<^verbatim>\<open>undefined\<close>, without an
  error, in the state it started in, or in the state the probe left when the call is a
  full download of a final file that has bytes. No file has changed.
\<close>

theorem no_attempts_undefined:
  assumes "maxRetries < 1"
    and "\<not> preflight_exists env u filePath referer sampleBytes st"
  shows "fst (downloadToFile env u filePath referer maxRetries sampleBytes st) = Inr RUndefined \<and>
         snd (downloadToFile env u filePath referer maxRetries sampleBytes st) =
           (if sampleBytes = 0 \<and> 0 < stat_size_or_0 st filePath
            then snd (getRemoteSizeAndRanges env u referer st) else st) \<and>
         files (snd (downloadToFile env u filePath referer maxRetries sampleBytes st)) = files st"
proof -
  have loop: "downloadToFile_from env u filePath referer maxRetries sb 1 vars s =
                (Inr RUndefined, s)" for vars s sb
    using assms(1) by (subst downloadToFile_from.simps) simp
  have run: "downloadToFile env u filePath referer maxRetries sampleBytes st =
      (Inr RUndefined, if sampleBytes = 0 \<and> 0 < stat_size_or_0 st filePath
            then snd (getRemoteSizeAndRanges env u referer st) else st)"
    using assms(2)
    by (cases "getRemoteSizeAndRanges env u referer st")
       (auto simp: downloadToFile_def Let_def loop preflight_exists_def)
  show ?thesis
    unfolding run using getRemoteSizeAndRanges_effects [of env u referer st] by simp
qed

theorem no_attempts_undefined_witness:
  "fst (downloadToFile no_range_env ''u'' ''f'' [] 0 0 (state_with_files [])) = Inr RUndefined \<and>
   snd (downloadToFile no_range_env ''u'' ''f'' [] 0 0 (state_with_files [])) = state_with_files []"
proof -
  have h2: "\<not> preflight_exists no_range_env ''u'' ''f'' [] 0 (state_with_files [])"
    by code_simp
  have h3: "\<not> 0 < stat_size_or_0 (state_with_files []) ''f''" by code_simp
  show ?thesis
    using no_attempts_undefined [of 0 no_range_env "''u''" "''f''" "[]" 0 "state_with_files []", OF _ h2] h3
    by simp
qed

text \<open>
  C10 as stated fails when the pre-flight returns first: with \<open>maxRetries = 0\<close>, a sample
  cap of 5 and a final file that has bytes, the call returns \<open>exists\<close>, not
  \<^verbatim>\<open>undefined\<close>.
\<close>

theorem no_attempts_exists_counterexample:
  "(0::int) < 1 \<and>
   fst (downloadToFile no_range_env ''u'' ''f'' [] 0 5 (state_with_files [(''f'', ''abc'')])) = Inr RExists"
  by code_simp

subsection \<open>Resuming after a failed attempt\<close>

text \<open>
  C1, as amended. An attempt that resumes at an offset \<open>off > 0\<close> and receives a response.
  When the response has a success status other than 206 and a body, the server did not
  honour the range: the temporary file is deleted, \<^verbatim>\<open>existingTmpSize\<close> is set to 0, and
  the attempt fails with the error \<^verbatim>\<open>'Server did not honor range; restarting from 0'\<close>.
  With these variables an attempt starts at offset 0, whatever the state, provided that
  \<^verbatim>\<open>existingFinalSize\<close> is 0. When the response has a status outside 200-299, the
  attempt fails with the error of \<open>explainHttpFailure\<close> and the temporary file is left
  in place. Whether the failed attempt is followed by a retry is not part of this
  statement.
\<close>

theorem range_not_honoured:
  assumes "resume_decision env u filePath referer sampleBytes vars st = (off, vars1, st1)"
    and "0 < off"
    and "fetch_server env (length (fetched st1)) (download_request env st1 u referer sampleBytes off)
           = Inr res"
  shows "(res_ok res \<and> res_body res \<noteq> None \<and> res_status res \<noteq> 206 \<longrightarrow>
            download_attempt env u filePath referer sampleBytes vars st =
              (Inl (Error ''Server did not honor range; restarting from 0''),
               vars1\<lparr>existingTmpSize := 0\<rparr>,
               st1\<lparr>fetched := fetched st1 @ [download_request env st1 u referer sampleBytes off],
                   files := (files st1)(filePath @ ''.part'' := None)\<rparr>) \<and>
            (existingFinalSize vars1 = 0 \<longrightarrow>
               (\<forall>st'. fst (resume_decision env u filePath referer sampleBytes
                              (vars1\<lparr>existingTmpSize := 0\<rparr>) st') = 0))) \<and>
         (\<not> res_ok res \<longrightarrow>
            download_attempt env u filePath referer sampleBytes vars st =
              (Inl (Error (explainHttpFailure (res_status res) ''Download'')),
               vars1,
               st1\<lparr>fetched := fetched st1 @ [download_request env st1 u referer sampleBytes off]\<rparr>))"
proof -
  have next_offset: "fst (resume_decision env u filePath referer sampleBytes
                            (vars1\<lparr>existingTmpSize := 0\<rparr>) st') = 0"
    if "existingFinalSize vars1 = 0" for st'
    using that by (simp add: resume_decision_def)
  have attempt: "download_attempt env u filePath referer sampleBytes vars st =
      (if res_ok res \<and> res_body res \<noteq> None
       then if res_status res \<noteq> 206
            then (Inl (Error ''Server did not honor range; restarting from 0''),
                  vars1\<lparr>existingTmpSize := 0\<rparr>,
                  st1\<lparr>fetched := fetched st1 @ [download_request env st1 u referer sampleBytes off],
                      files := (files st1)(filePath @ ''.part'' := None)\<rparr>)
            else download_attempt env u filePath referer sampleBytes vars st
       else (Inl (Error (explainHttpFailure (res_status res) ''Download'')),
             vars1,
             st1\<lparr>fetched := fetched st1 @ [download_request env st1 u referer sampleBytes off]\<rparr>))"
    using assms
    by (auto simp: download_attempt_def fetchWithTimeout_def fetch_def accepted_body_def unlink_quiet_def)
  show ?thesis
    using attempt next_offset by auto
qed

theorem range_not_honoured_witness:
  "fst (download_attempt no_range_env ''u'' ''f'' [] 0
          \<lparr>existingTmpSize = 4, existingFinalSize = 0, remoteInfo = None\<rparr>
          (state_with_files [(''f.part'', ''abcd'')])) =
     Inl (Error ''Server did not honor range; restarting from 0'') \<and>
   files (snd (snd (download_attempt no_range_env ''u'' ''f'' [] 0
          \<lparr>existingTmpSize = 4, existingFinalSize = 0, remoteInfo = None\<rparr>
          (state_with_files [(''f.part'', ''abcd'')])))) ''f.part'' = None \<and>
   fst (resume_decision no_range_env ''u'' ''f'' [] 0
          (fst (snd (download_attempt no_range_env ''u'' ''f'' [] 0
             \<lparr>existingTmpSize = 4, existingFinalSize = 0, remoteInfo = None\<rparr>
             (state_with_files [(''f.part'', ''abcd'')]))))
          (snd (snd (download_attempt no_range_env ''u'' ''f'' [] 0
             \<lparr>existingTmpSize = 4, existingFinalSize = 0, remoteInfo = None\<rparr>
             (state_with_files [(''f.part'', ''abcd'')]))))) = 0"
proof -
  let ?vars = "\<lparr>existingTmpSize = 4, existingFinalSize = 0, remoteInfo = None\<rparr>"
  let ?st = "state_with_files [(''f.part'', ''abcd'')]"
  have h1: "resume_decision no_range_env ''u'' ''f'' [] 0 ?vars ?st = (4, ?vars, ?st)"
    by (simp add: resume_decision_def)
  have h3: "fetch_server no_range_env (length (fetched ?st))
              (download_request no_range_env ?st ''u'' [] 0 4) = Inr whole_resource"
    by (simp add: no_range_env_def server_env_def)
  have h4: "res_ok whole_resource \<and> res_body whole_resource \<noteq> None \<and> res_status whole_resource \<noteq> 206"
    by code_simp
  show ?thesis
    using range_not_honoured [OF h1 _ h3] h4
    by simp
qed

text \<open>
  C1 as stated fails for a status other than 206 that is not a success status. A resumed
  request (offset 4) answered with 404 ends the call with the \<^verbatim>\<open>HTTP_404\<close> error, and
  the temporary file is not discarded: it still holds its four bytes. A resumed request
  answered with 408 is retried after the backoff delay, but not from offset 0: the
  temporary file is kept, the second request asks for \<^verbatim>\<open>bytes=4-\<close> again, and the
  download completes by resuming.
\<close>

theorem not_found_keeps_partial_counterexample:
  "(case downloadToFile not_found_env ''u'' ''f'' [] 4 0 (state_with_files [(''f.part'', ''abcd'')]) of
      (r, st) \<Rightarrow>
        (case r of Inl err \<Rightarrow> take 10 (err_message err) | Inr v \<Rightarrow> [],
         files st ''f.part'',
         map (\<lambda>q. hget (req_headers q) ''range'') (fetched st), slept st)) =
     (''[HTTP_404]'', Some ''abcd'', [Some ''bytes=4-''], []) \<and>
   (case downloadToFile busy_then_range_env ''u'' ''f'' [] 4 0
           (state_with_files [(''f.part'', ''abcd'')]) of
      (r, st) \<Rightarrow>
        (r, files st ''f'',
         map (\<lambda>q. hget (req_headers q) ''range'') (fetched st), slept st)) =
     (Inr RDownloaded, Some ''abcdefghij'', [Some ''bytes=4-'', Some ''bytes=4-''], [700])"
  by code_simp

text \<open>
  What the amended statement leaves open is the retry. The temporary file holds four
  bytes, four attempts are allowed, and the server ignores the range request
  \<^verbatim>\<open>bytes=4-\<close>: it answers 200 with the whole resource. The \<^verbatim>\<open>catch\<close> block does not
  class the error \<^verbatim>\<open>'Server did not honor range; restarting from 0'\<close> as retryable, so it
  is thrown out of \<open>downloadToFile\<close> at the first attempt: one request was sent, no
  backoff delay was slept, and nothing was downloaded.
\<close>

lemma range_ignored_is_terminal:
  "download_retryable (Error ''Server did not honor range; restarting from 0'') = False \<and>
   (case downloadToFile no_range_env ''u'' ''f'' [] 4 0 (state_with_files [(''f.part'', ''abcd'')]) of
      (r, st) \<Rightarrow>
        (r, files st ''f'', files st ''f.part'',
         map (\<lambda>q. hget (req_headers q) ''range'') (fetched st), slept st)) =
     (Inl (Error ''Server did not honor range; restarting from 0''), None, None,
      [Some ''bytes=4-''], [])"
  by code_simp

text \<open>
  On the first attempt of a full download the offset follows the files as they are: the
  size of the temporary file when it has bytes; else the size of the final file when it
  has bytes and the probe reports range support (the final file is then renamed to the
  temporary path); else 0.
\<close>

lemma first_attempt_offset:
  assumes "sampleBytes \<le> 0"
  shows "fst (resume_decision env u filePath referer sampleBytes
                \<lparr>existingTmpSize = stat_size_or_0 st (filePath @ ''.part''),
                 existingFinalSize = stat_size_or_0 st filePath, remoteInfo = None\<rparr> st) =
         (if 0 < stat_size_or_0 st (filePath @ ''.part'') then stat_size_or_0 st (filePath @ ''.part'')
          else if 0 < stat_size_or_0 st filePath \<and>
                  acceptRanges (fst (getRemoteSizeAndRanges env u referer st))
          then stat_size_or_0 st filePath
          else 0)"
proof -
  obtain info st1 where g: "getRemoteSizeAndRanges env u referer st = (info, st1)"
    by (cases "getRemoteSizeAndRanges env u referer st")
  have fl: "files st1 = files st"
    using getRemoteSizeAndRanges_effects [of env u referer st] g by simp
  have ex: "fs_rename filePath (filePath @ ''.part'') (files st1) \<noteq> None"
    if "0 < stat_size_or_0 st filePath"
    using that fl by (auto simp: fs_rename_def stat_size_or_0_def split: option.splits)
  show ?thesis
    using assms g ex
    by (auto simp: resume_decision_def split: option.splits)
qed

text \<open>
  C3, at a failing input. The temporary file holds the first four bytes of a ten-byte
  resource and the server honours range requests. The first attempt resumes at offset 4,
  appends two bytes and is aborted; the temporary file now holds six bytes. The second
  attempt does not use that size: \<^verbatim>\<open>existingTmpSize\<close> was read once, before the loop, so
  the offset is 4 again, the request is \<^verbatim>\<open>bytes=4-\<close> again, and the six bytes of the
  answer are appended to the six bytes on disk. The call returns \<open>downloaded\<close> with a
  final file of twelve bytes.
\<close>

theorem stale_resume_offset:
  "(case download_attempt stalling_env ''u'' ''f'' [] 0
           \<lparr>existingTmpSize = 4, existingFinalSize = 0, remoteInfo = None\<rparr>
           (state_with_files [(''f.part'', ''abcd'')]) of
      (r, vars, st) \<Rightarrow>
        (r, files st ''f.part'', existingTmpSize vars,
         fst (resume_decision stalling_env ''u'' ''f'' [] 0 vars st))) =
     (Inl abortError, Some ''abcdef'', 4, 4) \<and>
   (case downloadToFile stalling_env ''u'' ''f'' [] 4 0 (state_with_files [(''f.part'', ''abcd'')]) of
      (r, st) \<Rightarrow>
        (r, files st ''f'', files st ''f.part'',
         map (\<lambda>q. hget (req_headers q) ''range'') (fetched st), slept st)) =
     (Inr RDownloaded, Some ''abcdefefghij'', None, [Some ''bytes=4-'', Some ''bytes=4-''], [700])"
  by code_simp

subsection \<open>The login handshake\<close>

lemma same_but_raw_requests_step:
  "same_but_raw_requests req (sleep ms (st\<lparr>raw_sent := raw_sent st @ [req]\<rparr>)) st' \<Longrightarrow>
   same_but_raw_requests req st st'"
  unfolding same_but_raw_requests_def sleep_def
  by (auto intro: exI [of _ "Suc k" for k])

lemma rawRequestWithRetry_from_effects:
  "nat (retryAttempts env + 1 - a) = n \<Longrightarrow>
   same_but_raw_requests req st (snd (rawRequestWithRetry_from env req a le st))"
proof (induction n arbitrary: a le st)
  case 0
  then have "\<not> a \<le> retryAttempts env" by simp
  then show ?case
    by (subst rawRequestWithRetry_from.simps) (simp add: same_but_raw_requests_def)
next
  case (Suc n)
  then have le: "a \<le> retryAttempts env" and n: "nat (retryAttempts env + 1 - (a + 1)) = n"
    by simp_all
  note IH = Suc.IH [OF n, THEN same_but_raw_requests_step]
  have one: "same_but_raw_requests req st (st\<lparr>raw_sent := raw_sent st @ [req]\<rparr>)"
    by (auto simp: same_but_raw_requests_def intro: exI [of _ "Suc 0"])
  show ?case
    using le IH one
    by (subst rawRequestWithRetry_from.simps)
       (auto simp: rawRequest_def split: sum.splits)
qed

lemma rawRequestWithRetry_effects:
  "rawRequestWithRetry env req st = (r, st') \<Longrightarrow> same_but_raw_requests req st st'"
  using rawRequestWithRetry_from_effects [OF refl, of req st env 1 None]
  by (simp add: rawRequestWithRetry_def)

lemma password_requests_replicate:
  "rq_url req \<noteq> ORIGIN @ ''/api/v1/auth/login-authentication'' \<Longrightarrow>
   same_but_raw_requests req st st' \<Longrightarrow>
   password_requests (raw_sent st') = password_requests (raw_sent st) \<and>
   ACTIVE_COOKIE st' = ACTIVE_COOKIE st"
  by (auto simp: same_but_raw_requests_def password_requests_def)

text \<open>Step 0 of the handshake sends nothing to the password step.\<close>

lemma login_csrf_step_effects:
  assumes "login_csrf_step env st = (r, st')"
  shows "password_requests (raw_sent st') = password_requests (raw_sent st) \<and>
         ACTIVE_COOKIE st' = ACTIVE_COOKIE st"
proof -
  have u1: "rq_url login_page_request \<noteq> ORIGIN @ ''/api/v1/auth/login-authentication''"
    by (simp add: login_page_request_def)
  have u2: "rq_url core_data_raw_request \<noteq> ORIGIN @ ''/api/v1/auth/login-authentication''"
    by (simp add: core_data_raw_request_def)
  obtain r1 st1 where f1: "rawRequestWithRetry env login_page_request st = (r1, st1)"
    by (cases "rawRequestWithRetry env login_page_request st")
  note e1 = password_requests_replicate [OF u1 rawRequestWithRetry_effects [OF f1]]
  obtain r2 st2 where f2: "rawRequestWithRetry env core_data_raw_request st1 = (r2, st2)"
    by (cases "rawRequestWithRetry env core_data_raw_request st1")
  note e2 = password_requests_replicate [OF u2 rawRequestWithRetry_effects [OF f2]]
  show ?thesis
    using assms f1 f2 e1 e2
    by (auto simp: login_csrf_step_def Let_def split: sum.splits if_splits)
qed

lemma startsWith_append: "startsWith (p @ t) p"
  by (induction p) auto

lemma buildActionableError_prefix:
  "startsWith (buildActionableError code why next) (''['' @ code @ '']'')"
proof -
  have "\<exists>t. buildActionableError code why next = (''['' @ code @ '']'') @ t"
    by (cases "filter (\<lambda>n. n \<noteq> []) next") (auto simp: buildActionableError_def Let_def)
  then show ?thesis
    using startsWith_append by metis
qed

text \<open>
  C7. The handshake has its token (step 0 succeeded), and the check-active-user request
  returned a response with a 2xx status whose body parses to a JSON value with
  \<^verbatim>\<open>status\<close> equal to \<^verbatim>\<open>'success'\<close> and a \<^verbatim>\<open>message\<close> other than \<^verbatim>\<open>'get-pass'\<close>. Then
  the handshake ends at once, in the state the check request left, with an error whose
  message starts with \<^verbatim>\<open>[LOGIN_FLOW]\<close>; no request was sent to the login-authentication
  endpoint, and \<^verbatim>\<open>ACTIVE_COOKIE\<close> is unchanged.
\<close>

theorem unexpected_instruction_fails:
  assumes "email \<noteq> []" and "password \<noteq> []"
    and "login_csrf_step env st = (Inr (csrf, store), st1)"
    and "rawRequestWithRetry env (check_request csrf email store) st1 = (Inr r, st2)"
    and "200 \<le> rr_status r" and "rr_status r < 300"
    and "JSON_parse env (rr_body r) = Some jCheck" and "js_truthy jCheck"
    and "jget jCheck ''status'' = JsString ''success''"
    and "jget jCheck ''message'' \<noteq> JsString ''get-pass''"
  shows "\<exists>err. loginWithCredentialsInline env email password st = (Inl err, st2) \<and>
           startsWith (err_message err) ''[LOGIN_FLOW]'' \<and>
           password_requests (raw_sent st2) = password_requests (raw_sent st) \<and>
           ACTIVE_COOKIE st2 = ACTIVE_COOKIE st"
proof -
  let ?err = "Error (buildActionableError ''LOGIN_FLOW''
               (''Unsupported login flow (expected get-pass, got ''
                  @ show_json (jget jCheck ''message'') @ '').'')
               [''Run with --verbose and update script if site login flow changed.''])"
  have ans: "check_answer env r = Some ?err"
    using assms(5-10) by (simp add: check_answer_def)
  have run: "loginWithCredentialsInline env email password st = (Inl ?err, st2)"
    using assms(1-4) ans by (simp add: loginWithCredentialsInline_def)
  have pre: "startsWith (err_message ?err) ''[LOGIN_FLOW]''"
    using buildActionableError_prefix [of "''LOGIN_FLOW''"] by (simp add: Error_def)
  have u: "rq_url (check_request csrf email store) \<noteq> ORIGIN @ ''/api/v1/auth/login-authentication''"
    by (simp add: check_request_def)
  note e0 = login_csrf_step_effects [OF assms(3)]
  note e1 = password_requests_replicate [OF u rawRequestWithRetry_effects [OF assms(4)]]
  show ?thesis
    using run pre e0 e1 by auto
qed

theorem unexpected_instruction_fails_witness:
  "(case loginWithCredentialsInline (login_env ''PUT_YOUR_COOKIE_HERE'' ''check:get-otp'')
           ''a@b.c'' ''pw'' empty_state of
      (r, st) \<Rightarrow> (case r of Inl err \<Rightarrow> take 12 (err_message err) | Inr b \<Rightarrow> [],
                  map rq_url (raw_sent st), ACTIVE_COOKIE st)) =
   (''[LOGIN_FLOW]'',
    [ORIGIN @ ''/accounts/login/'', ORIGIN @ ''/api/v1/auth/check-active-user''], None)"
proof -
  let ?env = "login_env ''PUT_YOUR_COOKIE_HERE'' ''check:get-otp''"
  let ?store = "[(''csrftoken'', ''tok123'')]"
  let ?st1 = "snd (login_csrf_step ?env empty_state)"
  let ?check = "check_request (JsString ''tok123'') ''a@b.c'' ?store"
  let ?st2 = "snd (rawRequestWithRetry ?env ?check ?st1)"
  let ?r = "\<lparr>rr_status = 200, rr_set_cookie = [], rr_body = ''check:get-otp''\<rparr>"
  let ?j = "JsObject [(''status'', JsString ''success''), (''message'', JsString ''get-otp'')]"
  have "fst (login_csrf_step ?env empty_state) = Inr (JsString ''tok123'', ?store)"
    by code_simp
  then have h3: "login_csrf_step ?env empty_state = (Inr (JsString ''tok123'', ?store), ?st1)"
    by (metis prod.collapse)
  have "fst (rawRequestWithRetry ?env ?check ?st1) = Inr ?r"
    by code_simp
  then have h4: "rawRequestWithRetry ?env ?check ?st1 = (Inr ?r, ?st2)"
    by (metis prod.collapse)
  have h7: "JSON_parse ?env (rr_body ?r) = Some ?j" by code_simp
  have h8: "js_truthy ?j" by simp
  have h9: "jget ?j ''status'' = JsString ''success''" by simp
  have h10: "jget ?j ''message'' \<noteq> JsString ''get-pass''" by simp
  obtain err where
    run: "loginWithCredentialsInline ?env ''a@b.c'' ''pw'' empty_state = (Inl err, ?st2)"
    and pre: "startsWith (err_message err) ''[LOGIN_FLOW]''"
    using unexpected_instruction_fails [of "''a@b.c''" "''pw''" ?env empty_state
        "JsString ''tok123''" ?store ?st1 ?r ?st2 ?j, OF _ _ h3 h4 _ _ h7 h8 h9 h10]
    by auto
  have tk: "take 12 (err_message err) = ''[LOGIN_FLOW]''"
    using pre by (auto elim!: startsWith.elims)
  have tr: "map rq_url (raw_sent ?st2) =
              [ORIGIN @ ''/accounts/login/'', ORIGIN @ ''/api/v1/auth/check-active-user'']"
    by code_simp
  have ac: "ACTIVE_COOKIE ?st2 = None" by code_simp
  show ?thesis
    unfolding run using tk tr ac by simp
qed

subsection \<open>The session manager\<close>

text \<open>
  C5, as amended. A run of \<open>prepareSession\<close> that starts with no active credential, with
  an email and a password, in which neither step 1 nor step 2 returned a verified
  profile (the override cookie is absent or did not verify; the stored session is
  absent, skipped or did not verify), and in which a fresh login was demanded, or a
  stored session was tried, or no override cookie is configured. Then the fresh login
  handshake is performed, in the state \<open>st2\<close> that step 2 left. When step 2 tried a stored
  session, verification reported it not authenticated and the active credential was set
  absent before the login. The remaining case, an override cookie that did not verify
  with no stored session and no demand for a fresh login, is not part of this statement.
\<close>

theorem login_fallback_reached:
  assumes "userEmail \<noteq> []" and "userPassword \<noteq> []" and "ACTIVE_COOKIE st = None"
    and "session_override env courseUrl st = (None, st1)"
    and "session_reuse env courseUrl forceLogin (js_trim (config_sessionCookie st)) st1 = (None, st2)"
    and "forceLogin \<or> js_trim (config_sessionCookie st) \<noteq> [] \<or> \<not> override_configured env"
  shows "prepareSession env userEmail userPassword courseUrl forceLogin st =
           fresh_login env userEmail userPassword courseUrl st2 \<and>
         (js_trim (config_sessionCookie st) \<noteq> [] \<and> \<not> forceLogin \<longrightarrow> ACTIVE_COOKIE st2 = None)"
proof -
  have inv: "ACTIVE_COOKIE st2 = None" if "js_trim (config_sessionCookie st) \<noteq> []" "\<not> forceLogin"
    using assms(5) that by (auto simp: session_reuse_def split: prod.splits option.splits)
  have same: "ACTIVE_COOKIE st2 = None"
    if "js_trim (config_sessionCookie st) = []" "\<not> forceLogin" "\<not> override_configured env"
    using assms(3,4,5) that by (auto simp: session_reuse_def session_override_def)
  have "login_wanted st2 forceLogin"
  proof (cases forceLogin)
    case True
    then show ?thesis by (simp add: login_wanted_def)
  next
    case False
    then have "ACTIVE_COOKIE st2 = None"
      using assms(6) inv same by (cases "js_trim (config_sessionCookie st) = []") auto
    then show ?thesis by (simp add: login_wanted_def cookie_truthy_def)
  qed
  then show ?thesis
    using assms(1,2,4,5) inv by (simp add: prepareSession_def Let_def)
qed

theorem login_fallback_reached_witness:
  "snd (fst (prepareSession (login_env ''PUT_YOUR_COOKIE_HERE'' ''check:get-pass'') ''a@b.c'' ''pw'' []
               False (empty_state\<lparr>config_sessionCookie := ''sessionid=stale''\<rparr>))) = FreshLogin \<and>
   map rq_url
     (raw_sent (snd (prepareSession (login_env ''PUT_YOUR_COOKIE_HERE'' ''check:get-pass'') ''a@b.c''
                       ''pw'' [] False (empty_state\<lparr>config_sessionCookie := ''sessionid=stale''\<rparr>)))) =
     [ORIGIN @ ''/accounts/login/'', ORIGIN @ ''/api/v1/auth/check-active-user'',
      ORIGIN @ ''/api/v1/auth/login-authentication'']"
proof -
  let ?env = "login_env ''PUT_YOUR_COOKIE_HERE'' ''check:get-pass''"
  let ?st = "empty_state\<lparr>config_sessionCookie := ''sessionid=stale''\<rparr>"
  let ?stored = "js_trim (config_sessionCookie ?st)"
  let ?st2 = "snd (session_reuse ?env [] False ?stored ?st)"
  have h3: "ACTIVE_COOKIE ?st = None" by (simp add: empty_state_def)
  have h4: "session_override ?env [] ?st = (None, ?st)"
    by (simp add: session_override_def override_configured_def login_env_def)
  have "fst (session_reuse ?env [] False ?stored ?st) = None" by code_simp
  then have h5: "session_reuse ?env [] False ?stored ?st = (None, ?st2)"
    by (metis prod.collapse)
  have h6: "False \<or> ?stored \<noteq> [] \<or> \<not> override_configured ?env" by code_simp
  have run: "prepareSession ?env ''a@b.c'' ''pw'' [] False ?st = fresh_login ?env ''a@b.c'' ''pw'' [] ?st2"
    using login_fallback_reached [of "''a@b.c''" "''pw''" ?st ?env "[]" ?st False ?st2, OF _ _ h3 h4 h5 h6]
    by simp
  have r1: "snd (fst (fresh_login ?env ''a@b.c'' ''pw'' [] ?st2)) = FreshLogin" by code_simp
  have r2: "map rq_url (raw_sent (snd (fresh_login ?env ''a@b.c'' ''pw'' [] ?st2))) =
     [ORIGIN @ ''/accounts/login/'', ORIGIN @ ''/api/v1/auth/check-active-user'',
      ORIGIN @ ''/api/v1/auth/login-authentication'']" by code_simp
  show ?thesis
    unfolding run using r1 r2 by simp
qed

text \<open>
  C5 as stated fails when a fresh login is demanded and the override cookie of the
  configuration verifies: step 1 returns the profile with source \<^verbatim>\<open>config-cookie\<close>, and
  no request of the login handshake is sent, although an email and a password are
  available.
\<close>

theorem forced_login_skipped_counterexample:
  "(case prepareSession (login_env ''csrftoken=tok123; sessionid=fresh'' ''check:get-pass'')
           ''a@b.c'' ''pw'' [] True empty_state of
      ((core, src), st) \<Rightarrow> (src, ACTIVE_COOKIE st, map rq_url (raw_sent st))) =
   (ConfigCookie, Some ''csrftoken=tok123; sessionid=fresh'', [])"
  by code_simp

text \<open>
  The case that the amended statement leaves open: the override cookie does not verify,
  there is no stored session and no demand for a fresh login. The cookie stays the
  active credential, so step 3 is skipped: no request of the handshake is sent and the
  result is \<^verbatim>\<open>{ core: null, source: 'none' }\<close>, although an email and a password are
  available.
\<close>

lemma invalid_override_blocks_login:
  "(case prepareSession (login_env ''sessionid=stale'' ''check:get-pass'') ''a@b.c'' ''pw'' [] False
           empty_state of
      ((core, src), st) \<Rightarrow> (core, src, ACTIVE_COOKIE st, map rq_url (raw_sent st))) =
   (None, NoSession, Some ''sessionid=stale'', [])"
  by code_simp

end
